theory Spec2Isabelle
  imports Complex_Main "HOL-Library.Word"
begin

unbundle bit_operations_syntax

section \<open>Strings, paths and numbers as the JavaScript code sees them\<close>

text \<open>
  A JavaScript string is a sequence of UTF-16 code units. It is modelled as a
  \<^typ>\<open>string\<close>, one \<^typ>\<open>char\<close> per code unit, which covers the code units
  0 to 255. Sizes in megabytes are JavaScript numbers; they are modelled as exact
  rationals (\<open>buffer.length / (1024 * 1024)\<close> is exact in floating point too, a
  division by a power of two).
\<close>

definition is_upper :: "char \<Rightarrow> bool" where
  "is_upper c = (of_char c \<in> {65 .. (90::nat)})"

definition is_lower :: "char \<Rightarrow> bool" where
  "is_lower c = (of_char c \<in> {97 .. (122::nat)})"

definition is_digit :: "char \<Rightarrow> bool" where
  "is_digit c = (of_char c \<in> {48 .. (57::nat)})"

text \<open>
  \<open>String.prototype.toLowerCase\<close> on one code unit below 256: the ASCII capitals
  and the Latin-1 capitals (0xC0 to 0xDE without the multiplication sign 0xD7) move up
  by 32, every other code unit stays.
\<close>

definition lower_char :: "char \<Rightarrow> char" where
  "lower_char c =
     (let n = (of_char c :: nat) in
      if (65 \<le> n \<and> n \<le> 90) \<or> (192 \<le> n \<and> n \<le> 222 \<and> n \<noteq> 215)
      then char_of (n + 32) else c)"

definition toLowerCase :: "string \<Rightarrow> string" where
  "toLowerCase s = map lower_char s"

text \<open>
  Node's \<open>path\<close> module (POSIX flavour) is outside the repository; \<open>extname\<close> and
  \<open>basename\<close> are modelled by what its implementation computes. Trailing slashes are
  ignored, the last component is what follows the last remaining slash, and the
  extension runs from the last dot of that component to its end, unless there is no
  dot, the last dot is the component's first character, or the component is \<open>..\<close>.
\<close>

definition strip_trailing_slashes :: "string \<Rightarrow> string" where
  "strip_trailing_slashes p = rev (dropWhile (\<lambda>c. c = CHR ''/'') (rev p))"

definition last_component :: "string \<Rightarrow> string" where
  "last_component p =
     rev (takeWhile (\<lambda>c. c \<noteq> CHR ''/'') (rev (strip_trailing_slashes p)))"

definition extname :: "string \<Rightarrow> string" where
  "extname p =
     (let comp = last_component p;
          after_dot = takeWhile (\<lambda>c. c \<noteq> CHR ''.'') (rev comp)
      in if CHR ''.'' \<notin> set comp then []
         else if length after_dot + 1 = length comp then []
         else if comp = ''..'' then []
         else drop (length comp - (length after_dot + 1)) comp)"

text \<open>
  \<open>path.basename(p)\<close> is the last component; \<open>path.basename(p, suffix)\<close> also removes
  \<open>suffix\<close> from its end when the component ends with it and is longer than it. The
  code only passes the extension of the same path as suffix.
\<close>

definition basename :: "string \<Rightarrow> string" where
  "basename p = last_component p"

definition ends_with :: "string \<Rightarrow> string \<Rightarrow> bool" where
  "ends_with s suffix =
     (length suffix \<le> length s \<and> drop (length s - length suffix) s = suffix)"

definition basename_suffix :: "string \<Rightarrow> string \<Rightarrow> string" where
  "basename_suffix p suffix =
     (let comp = last_component p
      in if suffix \<noteq> [] \<and> suffix = p then []
         else if suffix \<noteq> [] \<and> length suffix < length comp \<and> ends_with comp suffix
         then take (length comp - length suffix) comp
         else comp)"

text \<open>Template literals print an integer in decimal.\<close>

definition digit_char :: "nat \<Rightarrow> char" where
  "digit_char d = ''0123456789'' ! d"

fun decimal :: "nat \<Rightarrow> string" where
  "decimal n = (if n < 10 then [digit_char n] else decimal (n div 10) @ [digit_char (n mod 10)])"

declare decimal.simps [simp del]

text \<open>
  \<open>crypto.randomBytes(8)\<close> is eight bytes, here the bytes of a 64-bit word from the most
  significant down; \<open>Buffer.toString('hex')\<close> prints two lower-case hexadecimal digits
  per byte.
\<close>

definition bytes8 :: "64 word \<Rightarrow> 8 word list" where
  "bytes8 x = map (\<lambda>i. ucast (drop_bit (8 * (7 - i)) x)) [0 ..< 8]"

definition hex_digit :: "nat \<Rightarrow> char" where
  "hex_digit d = ''0123456789abcdef'' ! d"

definition hex_byte :: "8 word \<Rightarrow> string" where
  "hex_byte b = [hex_digit (unat (drop_bit 4 b)), hex_digit (unat (b AND 15))]"

definition toString_hex :: "8 word list \<Rightarrow> string" where
  "toString_hex bs = concat (map hex_byte bs)"

section \<open>Data model\<close>

datatype tier = Free | Personal | Pro

datatype media_type = Image | Video

datatype upload_status = Pending | Processing | Complete | Failed

text \<open>
  Rows of the tables \<open>users\<close>, \<open>timeline_entries\<close> and \<open>media_attachments\<close>, each
  keyed by its \<open>id\<close>. The columns that the media handler never reads (names, e-mail,
  password hash, entry date and text, the \<open>created_at\<close> time stamps) are left out.
\<close>

record user_row =
  user_tier :: tier
  storage_used_mb :: rat

record entry_row =
  entry_user_id :: nat

record dimensions =
  width :: nat
  height :: nat
  duration :: "nat option"

record media_row =
  entry_id :: nat
  media_kind :: media_type
  filename :: string
  original_filename :: string
  file_size_mb :: rat
  r2_key :: string
  thumbnail_r2_key :: "string option"
  media_width :: nat
  media_height :: nat
  media_duration :: "nat option"
  status :: upload_status

text \<open>
  What the program observes of a \<open>Buffer\<close>: its length in bytes and, when \<open>sharp\<close>
  can decode it, the pixel width and height that \<open>metadata()\<close> reports.
\<close>

record buffer =
  buf_length :: nat
  buf_image :: "(nat \<times> nat) option"

text \<open>
  Every \<open>throw\<close> of the code is one constructor, carrying the data of its message.
  \<open>TypeError\<close> is the error the JavaScript runtime raises on a property read of
  \<open>undefined\<close>; \<open>SqliteError\<close>, \<open>R2Error\<close> and \<open>SharpError\<close> are the errors of
  a rejected statement, a rejected bucket command and a failed decode.
\<close>

datatype quota_reason =
  NoStorageForTier tier
  | OverQuota tier rat

datatype error =
  UnsupportedFileType string
  | FileTooLarge media_type nat
  | UserNotFound
  | QuotaExceeded quota_reason
  | FailedToProcessImage
  | FailedToUpload string
  | FailedToDelete string
  | FailedToSign string
  | MediaNotFoundOrAccessDenied
  | TypeError string
  | SqliteError string
  | R2Error string
  | SharpError string

datatype url = PublicUrl string | SignedUrl string nat

text \<open>
  The state the handlers act on: the three tables keyed by their primary key, the
  AUTOINCREMENT counter of \<open>media_attachments\<close>, the objects of the R2 bucket, for each
  key the error message with which the bucket currently rejects a command on it (network
  or service failure) if it does, and the lines written with \<open>console.error\<close>.
\<close>

record world =
  users :: "nat \<rightharpoonup> user_row"
  timeline_entries :: "nat \<rightharpoonup> entry_row"
  media_attachments :: "nat \<rightharpoonup> media_row"
  last_media_id :: nat
  r2_objects :: "string \<rightharpoonup> buffer"
  r2_rejects :: "string \<rightharpoonup> string"
  console :: "(string \<times> error) list"

definition console_error :: "string \<Rightarrow> error \<Rightarrow> world \<Rightarrow> world" where
  "console_error label e w = w\<lparr>console := console w @ [(label, e)]\<rparr>"

text \<open>What a call reads from its environment: \<open>Date.now()\<close>, the eight bytes of
  \<open>crypto.randomBytes(8)\<close> and the length of the JPEG that \<open>sharp\<close> encodes for an
  input buffer at the given output size.\<close>

record env =
  now :: nat
  random_bytes :: "64 word"
  jpeg_length :: "buffer \<Rightarrow> nat \<Rightarrow> nat \<Rightarrow> nat"

section \<open>Database (db/database.js)\<close>

definition getUserById :: "world \<Rightarrow> nat \<Rightarrow> user_row option" where
  "getUserById w userId = users w userId"

text \<open>\<open>UPDATE users SET storage_used_mb = ? WHERE id = ?\<close>: no row, no change.\<close>

definition updateUserStorageUsage :: "nat \<Rightarrow> rat \<Rightarrow> world \<Rightarrow> world" where
  "updateUserStorageUsage userId storageUsedMb w =
     (case users w userId of
        None \<Rightarrow> w
      | Some u \<Rightarrow> w\<lparr>users := (users w)(userId \<mapsto> u\<lparr>storage_used_mb := storageUsedMb\<rparr>)\<rparr>)"

text \<open>
  The INSERT is rejected when \<open>entry_id\<close> names no timeline entry (foreign keys are
  switched on in \<open>initialize\<close>); otherwise the row gets the next AUTOINCREMENT id and
  the default status \<open>complete\<close>. The counter is never below an id of the table.
\<close>

definition createMediaAttachment :: "media_row \<Rightarrow> world \<Rightarrow> (error + nat) \<times> world" where
  "createMediaAttachment mediaData w =
     (if timeline_entries w (entry_id mediaData) = None
      then (Inl (SqliteError ''FOREIGN KEY constraint failed''), w)
      else let new_id = Suc (last_media_id w)
           in (Inr new_id,
               w\<lparr>media_attachments := (media_attachments w)(new_id \<mapsto> mediaData\<lparr>status := Complete\<rparr>),
                 last_media_id := new_id\<rparr>))"

definition deleteMediaAttachment :: "nat \<Rightarrow> world \<Rightarrow> world" where
  "deleteMediaAttachment mediaId w =
     w\<lparr>media_attachments := (media_attachments w)(mediaId := None)\<rparr>"

text \<open>
  \<open>getMediaAttachment\<close> returns the row of
  \<open>SELECT ma.*, te.user_id as entry_user_id FROM media_attachments ma JOIN
  timeline_entries te ON ma.entry_id = te.id WHERE ma.id = ?\<close>. sqlite3 hands it over
  as an object with one property per selected column, so the row is modelled twice: as
  the typed \<open>media_row\<close> for the columns the code reads by their names, and as the list of
  properties of the object, for a read of any name. The join drops an attachment whose
  entry is missing.
\<close>

datatype jsval = JUndefined | JNull | JNum rat | JStr string

definition js_media_type :: "media_type \<Rightarrow> jsval" where
  "js_media_type k = (case k of Image \<Rightarrow> JStr ''image'' | Video \<Rightarrow> JStr ''video'')"

definition js_status :: "upload_status \<Rightarrow> jsval" where
  "js_status s = (case s of Pending \<Rightarrow> JStr ''pending'' | Processing \<Rightarrow> JStr ''processing''
                   | Complete \<Rightarrow> JStr ''complete'' | Failed \<Rightarrow> JStr ''failed'')"

definition js_nullable :: "('a \<Rightarrow> jsval) \<Rightarrow> 'a option \<Rightarrow> jsval" where
  "js_nullable f x = (case x of None \<Rightarrow> JNull | Some v \<Rightarrow> f v)"

record joined_row =
  joined_id :: nat
  joined_media :: media_row
  joined_entry_user_id :: nat

definition row_properties :: "joined_row \<Rightarrow> (string \<times> jsval) list" where
  "row_properties r =
     (let m = joined_media r in
      [(''id'', JNum (of_nat (joined_id r))),
       (''entry_id'', JNum (of_nat (entry_id m))),
       (''media_type'', js_media_type (media_kind m)),
       (''filename'', JStr (filename m)),
       (''original_filename'', JStr (original_filename m)),
       (''file_size_mb'', JNum (file_size_mb m)),
       (''r2_key'', JStr (r2_key m)),
       (''thumbnail_r2_key'', js_nullable JStr (thumbnail_r2_key m)),
       (''width'', JNum (of_nat (media_width m))),
       (''height'', JNum (of_nat (media_height m))),
       (''duration'', js_nullable (\<lambda>d. JNum (of_nat d)) (media_duration m)),
       (''upload_status'', js_status (status m)),
       (''entry_user_id'', JNum (of_nat (joined_entry_user_id r)))])"

definition getMediaAttachment :: "world \<Rightarrow> nat \<Rightarrow> joined_row option" where
  "getMediaAttachment w mediaId =
     (case media_attachments w mediaId of
        None \<Rightarrow> None
      | Some m \<Rightarrow>
          (case timeline_entries w (entry_id m) of
             None \<Rightarrow> None
           | Some te \<Rightarrow>
               Some \<lparr>joined_id = mediaId, joined_media = m,
                     joined_entry_user_id = entry_user_id te\<rparr>))"

text \<open>
  Reading property \<open>p\<close> of an object gives \<open>undefined\<close> when the object has no such
  property; reading a property of \<open>undefined\<close> or \<open>null\<close> throws a TypeError; a number
  or a string has none of the properties that the handlers read.
\<close>

definition get_property :: "(string \<times> jsval) list \<Rightarrow> string \<Rightarrow> jsval" where
  "get_property obj p = (case map_of obj p of None \<Rightarrow> JUndefined | Some v \<Rightarrow> v)"

definition read_member :: "jsval \<Rightarrow> string \<Rightarrow> error + jsval" where
  "read_member v p =
     (case v of
        JUndefined \<Rightarrow> Inl (TypeError (''Cannot read properties of undefined (reading '' @ p @ '')''))
      | JNull \<Rightarrow> Inl (TypeError (''Cannot read properties of null (reading '' @ p @ '')''))
      | _ \<Rightarrow> Inr JUndefined)"

section \<open>Object store (src/r2-storage.js)\<close>

record upload_result =
  up_key :: string
  up_url :: url
  up_size :: nat

text \<open>The regular expression \<open>/[^a-zA-Z0-9-_]/g\<close> replaces each code unit outside the
  class by an underscore.\<close>

definition allowed_char :: "char \<Rightarrow> bool" where
  "allowed_char c =
     (is_lower c \<or> is_upper c \<or> is_digit c \<or> c = CHR ''-'' \<or> c = CHR ''_'')"

definition sanitize :: "string \<Rightarrow> string" where
  "sanitize s = map (\<lambda>c. if allowed_char c then c else CHR ''_'') s"

definition object_key :: "env \<Rightarrow> string \<Rightarrow> nat \<Rightarrow> string" where
  "object_key e originalFilename userId =
     (let timestamp = now e;
          randomId = toString_hex (bytes8 (random_bytes e));
          extension = extname originalFilename;
          sanitizedName = take 50 (sanitize (basename_suffix originalFilename extension))
      in ''users/'' @ decimal userId @ ''/'' @ decimal timestamp @ ''_'' @ randomId
           @ ''_'' @ sanitizedName @ extension)"

text \<open>
  \<open>uploadFile\<close> builds the key and puts the buffer under it. A rejected command is
  logged and thrown again as the upload failure. The public URL is the bucket's public
  host followed by the key; the ETag of the result, which no caller reads, is left out.
\<close>

definition uploadFile ::
  "env \<Rightarrow> buffer \<Rightarrow> string \<Rightarrow> string \<Rightarrow> nat \<Rightarrow> world \<Rightarrow> (error + upload_result) \<times> world" where
  "uploadFile e fileBuffer originalFilename mimeType userId w =
     (let key = object_key e originalFilename userId
      in case r2_rejects w key of
           Some msg \<Rightarrow>
             (Inl (FailedToUpload msg), console_error ''R2 upload error:'' (R2Error msg) w)
         | None \<Rightarrow>
             (Inr \<lparr>up_key = key, up_url = PublicUrl key, up_size = buf_length fileBuffer\<rparr>,
              w\<lparr>r2_objects := (r2_objects w)(key \<mapsto> fileBuffer)\<rparr>))"

text \<open>A signed URL is determined by the key and the expiry; the expiry defaults to 3600
  seconds.\<close>

definition getSignedUrl :: "string \<Rightarrow> nat \<Rightarrow> world \<Rightarrow> (error + url) \<times> world" where
  "getSignedUrl key expiresIn w =
     (case r2_rejects w key of
        Some msg \<Rightarrow>
          (Inl (FailedToSign msg), console_error ''R2 signed URL error:'' (R2Error msg) w)
      | None \<Rightarrow> (Inr (SignedUrl key expiresIn), w))"

definition default_expiresIn :: nat where
  "default_expiresIn = 3600"

definition deleteFile :: "string \<Rightarrow> world \<Rightarrow> (error + bool) \<times> world" where
  "deleteFile key w =
     (case r2_rejects w key of
        Some msg \<Rightarrow>
          (Inl (FailedToDelete msg), console_error ''R2 delete error:'' (R2Error msg) w)
      | None \<Rightarrow> (Inr True, w\<lparr>r2_objects := (r2_objects w)(key := None)\<rparr>))"

section \<open>Media handler (src/media-handler.js)\<close>

definition supportedImages :: "string list" where
  "supportedImages = [''.jpg'', ''.jpeg'', ''.png'', ''.webp'', ''.gif'']"

definition supportedVideos :: "string list" where
  "supportedVideos = [''.mp4'', ''.webm'', ''.mov'', ''.avi'']"

definition maxFileSizeMB :: "media_type \<Rightarrow> nat" where
  "maxFileSizeMB k = (case k of Image \<Rightarrow> 10 | Video \<Rightarrow> 100)"

text \<open>
  The tier table is configuration (the README's environment sets 0, 600 and -1 for the
  three tiers); it is a parameter of the handler. The value -1 stands for no limit.
\<close>

type_synonym tier_limits = "tier \<Rightarrow> rat"

definition unlimited :: rat where
  "unlimited = - 1"

definition readme_limits :: tier_limits where
  "readme_limits t = (case t of Free \<Rightarrow> 0 | Personal \<Rightarrow> 600 | Pro \<Rightarrow> - 1)"

datatype permission = Allowed | Denied quota_reason

text \<open>
  Modelled from the spec: \<open>MediaHandler.checkMediaUploadPermission\<close>, which
  \<open>processAndUpload\<close> calls with the account id, the file size, the tier and the current
  usage, and whose definition is in none of the source files. The spec's QuotaEnforcer:
  an unlimited ceiling admits unconditionally; a zero ceiling rejects unconditionally,
  naming the tier; otherwise the upload is admitted iff usage plus size does not exceed
  the ceiling, and a rejection states the remaining headroom.
\<close>

definition checkMediaUploadPermission :: "tier_limits \<Rightarrow> nat \<Rightarrow> rat \<Rightarrow> tier \<Rightarrow> rat \<Rightarrow> permission" where
  "checkMediaUploadPermission limits userId fileSizeMB t storageUsedMb =
     (let ceiling = limits t
      in if ceiling = unlimited then Allowed
         else if ceiling = 0 then Denied (NoStorageForTier t)
         else if storageUsedMb + fileSizeMB \<le> ceiling then Allowed
         else Denied (OverQuota t (ceiling - storageUsedMb)))"

text \<open>
  \<open>sharp\<close> is outside the repository. Its \<open>resize\<close> with neither width nor height leaves
  the image as it is; with one of them it scales the other side in proportion, rounded
  to the nearest pixel and at least one, and with \<open>withoutEnlargement\<close> it leaves an
  image alone that is already smaller than the target; with both it produces that size.
\<close>

record resize_options =
  ro_width :: "nat option"
  ro_height :: "nat option"
  withoutEnlargement :: bool

definition scale_round :: "nat \<Rightarrow> nat \<Rightarrow> nat \<Rightarrow> nat" where
  "scale_round side target other = max 1 ((2 * other * target + side) div (2 * side))"

definition sharp_resize :: "resize_options \<Rightarrow> nat \<times> nat \<Rightarrow> nat \<times> nat" where
  "sharp_resize opts d =
     (case d of (w0, h0) \<Rightarrow>
        (case (ro_width opts, ro_height opts) of
           (None, None) \<Rightarrow> (w0, h0)
         | (Some tw, None) \<Rightarrow>
             if w0 = 0 \<or> (withoutEnlargement opts \<and> w0 \<le> tw) then (w0, h0)
             else (tw, scale_round w0 tw h0)
         | (None, Some th) \<Rightarrow>
             if h0 = 0 \<or> (withoutEnlargement opts \<and> h0 \<le> th) then (w0, h0)
             else (scale_round h0 th w0, th)
         | (Some tw, Some th) \<Rightarrow>
             if withoutEnlargement opts \<and> (w0 \<le> tw \<or> h0 \<le> th) then (w0, h0)
             else (tw, th)))"

definition sharp_metadata :: "buffer \<Rightarrow> (nat \<times> nat) option" where
  "sharp_metadata b = buf_image b"

definition maxDimension :: nat where
  "maxDimension = 2048"

definition processImage :: "env \<Rightarrow> buffer \<Rightarrow> world \<Rightarrow> (error + buffer \<times> dimensions) \<times> world" where
  "processImage e imageBuffer w =
     (case sharp_metadata imageBuffer of
        None \<Rightarrow>
          (Inl FailedToProcessImage,
           console_error ''Image processing error:'' (SharpError ''unsupported image format'') w)
      | Some (mw, mh) \<Rightarrow>
          (let resizeOptions =
                 (if mw > maxDimension \<or> mh > maxDimension
                  then \<lparr>ro_width = (if mw > mh then Some maxDimension else None),
                        ro_height = (if mh > mw then Some maxDimension else None),
                        withoutEnlargement = True\<rparr>
                  else \<lparr>ro_width = None, ro_height = None, withoutEnlargement = False\<rparr>);
               resized = sharp_resize resizeOptions (mw, mh);
               processedBuffer =
                 \<lparr>buf_length = jpeg_length e imageBuffer (fst resized) (snd resized),
                  buf_image = Some resized\<rparr>
           in case sharp_metadata processedBuffer of
                None \<Rightarrow>
                  (Inl FailedToProcessImage,
                   console_error ''Image processing error:''
                     (SharpError ''unsupported image format'') w)
              | Some (fw, fh) \<Rightarrow>
                  (Inr (processedBuffer, \<lparr>width = fw, height = fh, duration = None\<rparr>), w)))"

definition getVideoDimensions :: "buffer \<Rightarrow> dimensions" where
  "getVideoDimensions videoBuffer = \<lparr>width = 1920, height = 1080, duration = Some 60\<rparr>"

record media_result =
  res_id :: nat
  res_url :: url
  res_mediaType :: media_type
  res_dimensions :: dimensions
  res_fileSize :: nat

text \<open>\<open>dimensions.duration || null\<close>: an absent or zero duration is stored as NULL.\<close>

definition duration_or_null :: "nat option \<Rightarrow> nat option" where
  "duration_or_null d = (case d of None \<Rightarrow> None | Some n \<Rightarrow> if n = 0 then None else Some n)"

definition megabytes :: "nat \<Rightarrow> rat" where
  "megabytes n = of_nat n / (1024 * 1024)"

text \<open>
  \<open>processAndUpload\<close> from the permission check on (lines 52 to 106), for the account
  row \<open>user\<close> that line 49 loaded.
\<close>

definition upload_for_user ::
  "tier_limits \<Rightarrow> env \<Rightarrow> user_row \<Rightarrow> media_type \<Rightarrow> rat \<Rightarrow> buffer \<Rightarrow> string \<Rightarrow> string \<Rightarrow> nat \<Rightarrow> nat
     \<Rightarrow> world \<Rightarrow> (error + media_result) \<times> world" where
  "upload_for_user limits e user mediaType fileSizeMB fileBuffer originalFilename mimeType userId entryId w =
     (case checkMediaUploadPermission limits userId fileSizeMB (user_tier user) (storage_used_mb user) of
        Denied r \<Rightarrow> (Inl (QuotaExceeded r), w)
      | Allowed \<Rightarrow>
          (case (case mediaType of
                   Image \<Rightarrow> processImage e fileBuffer w
                 | Video \<Rightarrow> (Inr (fileBuffer, getVideoDimensions fileBuffer), w)) of
             (Inl err, w1) \<Rightarrow> (Inl err, w1)
           | (Inr (processedBuffer, dims), w1) \<Rightarrow>
               (case uploadFile e processedBuffer originalFilename mimeType userId w1 of
                  (Inl err, w2) \<Rightarrow> (Inl err, w2)
                | (Inr uploadResult, w2) \<Rightarrow>
                    (case createMediaAttachment
                            \<lparr>entry_id = entryId, media_kind = mediaType,
                             filename = basename (up_key uploadResult),
                             original_filename = originalFilename,
                             file_size_mb = megabytes (up_size uploadResult),
                             r2_key = up_key uploadResult,
                             thumbnail_r2_key = None,
                             media_width = width dims, media_height = height dims,
                             media_duration = duration_or_null (duration dims),
                             status = Complete\<rparr> w2 of
                       (Inl err, w3) \<Rightarrow> (Inl err, w3)
                     | (Inr mediaId, w3) \<Rightarrow>
                         (Inr \<lparr>res_id = mediaId, res_url = up_url uploadResult,
                               res_mediaType = mediaType, res_dimensions = dims,
                               res_fileSize = up_size uploadResult\<rparr>,
                          updateUserStorageUsage userId
                            (storage_used_mb user + megabytes (up_size uploadResult)) w3)))))"

definition classify :: "string \<Rightarrow> media_type option" where
  "classify extension =
     (if extension \<in> set supportedImages then Some Image
      else if extension \<in> set supportedVideos then Some Video
      else None)"

definition processAndUpload_try ::
  "tier_limits \<Rightarrow> env \<Rightarrow> buffer \<Rightarrow> string \<Rightarrow> string \<Rightarrow> nat \<Rightarrow> nat
     \<Rightarrow> world \<Rightarrow> (error + media_result) \<times> world" where
  "processAndUpload_try limits e fileBuffer originalFilename mimeType userId entryId w =
     (let extension = toLowerCase (extname originalFilename);
          fileSizeMB = megabytes (buf_length fileBuffer)
      in case classify extension of
           None \<Rightarrow> (Inl (UnsupportedFileType extension), w)
         | Some mediaType \<Rightarrow>
             if fileSizeMB > of_nat (maxFileSizeMB mediaType)
             then (Inl (FileTooLarge mediaType (maxFileSizeMB mediaType)), w)
             else (case getUserById w userId of
                     None \<Rightarrow> (Inl UserNotFound, w)
                   | Some user \<Rightarrow>
                       upload_for_user limits e user mediaType fileSizeMB fileBuffer
                         originalFilename mimeType userId entryId w))"

text \<open>The \<open>catch\<close> of every handler logs the error and throws it again.\<close>

definition log_and_rethrow :: "string \<Rightarrow> (error + 'a) \<times> world \<Rightarrow> (error + 'a) \<times> world" where
  "log_and_rethrow label r =
     (case r of
        (Inl err, w) \<Rightarrow> (Inl err, console_error label err w)
      | (Inr v, w) \<Rightarrow> (Inr v, w))"

definition processAndUpload ::
  "tier_limits \<Rightarrow> env \<Rightarrow> buffer \<Rightarrow> string \<Rightarrow> string \<Rightarrow> nat \<Rightarrow> nat
     \<Rightarrow> world \<Rightarrow> (error + media_result) \<times> world" where
  "processAndUpload limits e fileBuffer originalFilename mimeType userId entryId w =
     log_and_rethrow ''Media processing error:''
       (processAndUpload_try limits e fileBuffer originalFilename mimeType userId entryId w)"

text \<open>
  \<open>deleteMedia\<close> after its ownership check (lines 186 to 199), for the row \<open>media\<close> that
  line 181 loaded. A thumbnail key is deleted when it is truthy: present and not empty.
  Reading \<open>storage_used_mb\<close> of an account that no longer exists is a TypeError.
\<close>

definition deleteMedia_steps :: "joined_row \<Rightarrow> nat \<Rightarrow> nat \<Rightarrow> world \<Rightarrow> (error + bool) \<times> world" where
  "deleteMedia_steps media mediaId userId w =
     (case deleteFile (r2_key (joined_media media)) w of
        (Inl err, w1) \<Rightarrow> (Inl err, w1)
      | (Inr _, w1) \<Rightarrow>
          (case (case thumbnail_r2_key (joined_media media) of
                   None \<Rightarrow> (Inr True, w1)
                 | Some t \<Rightarrow> if t = [] then (Inr True, w1) else deleteFile t w1) of
             (Inl err, w2) \<Rightarrow> (Inl err, w2)
           | (Inr _, w2) \<Rightarrow>
               (let w3 = deleteMediaAttachment mediaId w2
                in case getUserById w3 userId of
                     None \<Rightarrow>
                       (Inl (TypeError ''Cannot read properties of undefined (reading storage_used_mb)''), w3)
                   | Some user \<Rightarrow>
                       (Inr True,
                        updateUserStorageUsage userId
                          (storage_used_mb user - file_size_mb (joined_media media)) w3))))"

text \<open>
  The ownership check of \<open>deleteMedia\<close> and \<open>getMediaUrl\<close> is
  \<open>!media || media.entry.user_id !== userId\<close>: the property \<open>entry\<close> of the row is read,
  and then the property \<open>user_id\<close> of the result.
\<close>

definition deleteMedia :: "nat \<Rightarrow> nat \<Rightarrow> world \<Rightarrow> (error + bool) \<times> world" where
  "deleteMedia mediaId userId w =
     log_and_rethrow ''Media deletion error:''
       (case getMediaAttachment w mediaId of
          None \<Rightarrow> (Inl MediaNotFoundOrAccessDenied, w)
        | Some media \<Rightarrow>
            (case read_member (get_property (row_properties media) ''entry'') ''user_id'' of
               Inl err \<Rightarrow> (Inl err, w)
             | Inr owner \<Rightarrow>
                 if owner \<noteq> JNum (of_nat userId) then (Inl MediaNotFoundOrAccessDenied, w)
                 else deleteMedia_steps media mediaId userId w))"

definition getMediaUrl :: "nat \<Rightarrow> nat \<Rightarrow> world \<Rightarrow> (error + url) \<times> world" where
  "getMediaUrl mediaId userId w =
     log_and_rethrow ''Get media URL error:''
       (case getMediaAttachment w mediaId of
          None \<Rightarrow> (Inl MediaNotFoundOrAccessDenied, w)
        | Some media \<Rightarrow>
            (case read_member (get_property (row_properties media) ''entry'') ''user_id'' of
               Inl err \<Rightarrow> (Inl err, w)
             | Inr owner \<Rightarrow>
                 if owner \<noteq> JNum (of_nat userId) then (Inl MediaNotFoundOrAccessDenied, w)
                 else getSignedUrl (r2_key (joined_media media)) default_expiresIn w))"

section \<open>Two requests of one account\<close>

text \<open>
  \<open>processAndUpload\<close> is an \<open>async\<close> function: it runs up to an \<open>await\<close>, and other
  requests run while it waits. Its first \<open>await\<close> is the load of the account row in line
  49; what comes before is the validation, which reads no state. A request that has
  passed validation and loaded the row continues with lines 52 to 106 under the
  handler's \<open>catch\<close>.
\<close>

record request =
  req_env :: env
  req_buffer :: buffer
  req_filename :: string
  req_mimeType :: string
  req_entryId :: nat

definition validated :: "request \<Rightarrow> (media_type \<times> rat) option" where
  "validated rq =
     (let extension = toLowerCase (extname (req_filename rq));
          fileSizeMB = megabytes (buf_length (req_buffer rq))
      in case classify extension of
           None \<Rightarrow> None
         | Some mediaType \<Rightarrow>
             if fileSizeMB > of_nat (maxFileSizeMB mediaType) then None
             else Some (mediaType, fileSizeMB))"

definition resume_upload ::
  "tier_limits \<Rightarrow> nat \<Rightarrow> request \<Rightarrow> user_row \<Rightarrow> media_type \<times> rat \<Rightarrow> world
     \<Rightarrow> (error + media_result) \<times> world" where
  "resume_upload limits userId rq user v w =
     log_and_rethrow ''Media processing error:''
       (upload_for_user limits (req_env rq) user (fst v) (snd v) (req_buffer rq)
          (req_filename rq) (req_mimeType rq) userId (req_entryId rq) w)"

definition run_upload ::
  "tier_limits \<Rightarrow> nat \<Rightarrow> request \<Rightarrow> world \<Rightarrow> (error + media_result) \<times> world" where
  "run_upload limits userId rq w =
     processAndUpload limits (req_env rq) (req_buffer rq) (req_filename rq) (req_mimeType rq)
       userId (req_entryId rq) w"



section \<open>Example states and requests\<close>

text \<open>
  Three accounts, one per tier, under the README's limits: account 7 (personal) has used
  590 of 600 MB, account 8 is on the free tier, account 9 on the unlimited one. Account
  7 owns timeline entry 3, which carries attachment 4, a 5 MB image.
\<close>

definition cat_key :: string where
  "cat_key = ''users/7/100_00000000000000ff_cat.jpg''"

definition cat_row :: media_row where
  "cat_row =
     \<lparr>entry_id = 3, media_kind = Image, filename = ''100_00000000000000ff_cat.jpg'',
      original_filename = ''cat.jpg'', file_size_mb = 5, r2_key = cat_key,
      thumbnail_r2_key = None, media_width = 800, media_height = 600,
      media_duration = None, status = Complete\<rparr>"

definition example_world :: world where
  "example_world =
     \<lparr>users = [7 \<mapsto> \<lparr>user_tier = Personal, storage_used_mb = 590\<rparr>,
               8 \<mapsto> \<lparr>user_tier = Free, storage_used_mb = 0\<rparr>,
               9 \<mapsto> \<lparr>user_tier = Pro, storage_used_mb = 5000\<rparr>],
      timeline_entries = [3 \<mapsto> \<lparr>entry_user_id = 7\<rparr>],
      media_attachments = [4 \<mapsto> cat_row],
      last_media_id = 4,
      r2_objects = [cat_key \<mapsto> \<lparr>buf_length = 5242880, buf_image = Some (800, 600)\<rparr>],
      r2_rejects = Map.empty,
      console = []\<rparr>"

definition example_env :: env where
  "example_env = \<lparr>now = 1234, random_bytes = 0x0123456789abcdef, jpeg_length = (\<lambda>b w h. buf_length b)\<rparr>"


definition video_5mb :: buffer where
  "video_5mb = \<lparr>buf_length = 5242880, buf_image = None\<rparr>"

definition image_5mb :: buffer where
  "image_5mb = \<lparr>buf_length = 5242880, buf_image = Some (1600, 1200)\<rparr>"

definition image_11mb :: buffer where
  "image_11mb = \<lparr>buf_length = 11534336, buf_image = Some (1600, 1200)\<rparr>"

definition square_image :: buffer where
  "square_image = \<lparr>buf_length = 5242880, buf_image = Some (3000, 3000)\<rparr>"

text \<open>The row that \<open>getMediaAttachment\<close> returns for attachment 4.\<close>

definition cat_joined :: joined_row where
  "cat_joined = \<lparr>joined_id = 4, joined_media = cat_row, joined_entry_user_id = 7\<rparr>"

text \<open>The same state while the bucket rejects commands on the attachment's object.\<close>

definition outage_world :: world where
  "outage_world = example_world\<lparr>r2_rejects := [cat_key \<mapsto> ''503 Service Unavailable'']\<rparr>"




section \<open>Auxiliary facts\<close>

lemma fst_log_and_rethrow [simp]: "fst (log_and_rethrow label r) = fst r"
  by (cases r) (auto simp: log_and_rethrow_def split: sum.splits)

lemma snd_log_and_rethrow:
  "snd (log_and_rethrow label r) =
     (case fst r of Inl err \<Rightarrow> console_error label err (snd r) | Inr v \<Rightarrow> snd r)"
  by (cases r) (auto simp: log_and_rethrow_def split: sum.splits)

lemma console_error_tables [simp]:
  "users (console_error l x w) = users w"
  "timeline_entries (console_error l x w) = timeline_entries w"
  "media_attachments (console_error l x w) = media_attachments w"
  "last_media_id (console_error l x w) = last_media_id w"
  "r2_objects (console_error l x w) = r2_objects w"
  "r2_rejects (console_error l x w) = r2_rejects w"
  "console (console_error l x w) = console w @ [(l, x)]"
  by (simp_all add: console_error_def)

lemma processImage_result:
  "processImage e b w = (Inl err, w') \<Longrightarrow> err = FailedToProcessImage"
  by (auto simp: processImage_def sharp_metadata_def Let_def split: option.splits prod.splits)

lemma upload_for_user_errors:
  assumes "fst (upload_for_user limits e user k mb buf fn mime uid eid w) = Inl err"
  shows "(\<exists>r. err = QuotaExceeded r) \<or> err = FailedToProcessImage
         \<or> (\<exists>m. err = FailedToUpload m) \<or> (\<exists>m. err = SqliteError m)"
  using assms
  by (auto simp: upload_for_user_def uploadFile_def createMediaAttachment_def Let_def
           dest: processImage_result
           split: permission.splits media_type.splits sum.splits prod.splits option.splits if_splits)

lemma ext_notes: "toLowerCase (extname ''notes.TXT'') = ''.txt''"
  by code_simp

lemma ext_photo: "toLowerCase (extname ''photo.JPG'') = ''.jpg''"
  by code_simp

lemma ext_clip: "toLowerCase (extname ''clip.MOV'') = ''.mov''"
  by code_simp

lemma megabytes_5: "megabytes 5242880 = 5"
  by (simp add: megabytes_def)

lemma megabytes_11: "megabytes 11534336 = 11"
  by (simp add: megabytes_def)

section \<open>Validation of an upload\<close>

text \<open>
  Claim C7. \<open>processAndUpload\<close> classifies the file by the lower-cased extension of its
  name: image if it is in the image list, video if it is in the video list, and the call
  fails with the unsupported-type error otherwise. For a classified file the call fails
  with the too-large error, which names the limit of the kind, exactly when the buffer's
  size in MB exceeds that limit, 10 for images and 100 for videos. After either failure
  the tables and the bucket are as before (the error is written to the console).
\<close>

theorem validator_contract:
  fixes fn :: string and limits :: tier_limits and e :: env and buf :: buffer
    and mime :: string and uid eid :: nat and w :: world
  defines "ext \<equiv> toLowerCase (extname fn)"
  defines "r \<equiv> processAndUpload limits e buf fn mime uid eid w"
  shows "(ext \<in> set supportedImages \<longrightarrow> classify ext = Some Image)
       \<and> (ext \<notin> set supportedImages \<and> ext \<in> set supportedVideos \<longrightarrow> classify ext = Some Video)
       \<and> (ext \<notin> set supportedImages \<and> ext \<notin> set supportedVideos \<longrightarrow>
            fst r = Inl (UnsupportedFileType ext))
       \<and> (\<forall>k. classify ext = Some k \<longrightarrow>
            (fst r = Inl (FileTooLarge k (maxFileSizeMB k))
               \<longleftrightarrow> megabytes (buf_length buf) > of_nat (maxFileSizeMB k)))
       \<and> maxFileSizeMB Image = 10 \<and> maxFileSizeMB Video = 100
       \<and> ((\<exists>x. fst r = Inl (UnsupportedFileType x)) \<or> (\<exists>k n. fst r = Inl (FileTooLarge k n)) \<longrightarrow>
            users (snd r) = users w \<and> timeline_entries (snd r) = timeline_entries w
            \<and> media_attachments (snd r) = media_attachments w
            \<and> last_media_id (snd r) = last_media_id w
            \<and> r2_objects (snd r) = r2_objects w)"
proof -
  have a: "ext \<in> set supportedImages \<longrightarrow> classify ext = Some Image"
    by (simp add: classify_def)
  have b: "ext \<notin> set supportedImages \<and> ext \<in> set supportedVideos \<longrightarrow> classify ext = Some Video"
    by (simp add: classify_def)
  have c: "ext \<notin> set supportedImages \<and> ext \<notin> set supportedVideos \<longrightarrow>
            fst r = Inl (UnsupportedFileType ext)"
    by (simp add: r_def ext_def processAndUpload_def processAndUpload_try_def classify_def)
  have d: "\<forall>k. classify ext = Some k \<longrightarrow>
            (fst r = Inl (FileTooLarge k (maxFileSizeMB k))
               \<longleftrightarrow> megabytes (buf_length buf) > of_nat (maxFileSizeMB k))"
  proof (intro allI impI)
    fix k assume k: "classify ext = Some k"
    show "fst r = Inl (FileTooLarge k (maxFileSizeMB k))
               \<longleftrightarrow> megabytes (buf_length buf) > of_nat (maxFileSizeMB k)"
    proof (cases "megabytes (buf_length buf) > of_nat (maxFileSizeMB k)")
      case True
      then show ?thesis using k
        by (simp add: r_def ext_def processAndUpload_def processAndUpload_try_def)
    next
      case False
      have "fst r \<noteq> Inl (FileTooLarge k (maxFileSizeMB k))"
      proof (cases "getUserById w uid")
        case None
        then show ?thesis using k False
          by (simp add: r_def ext_def processAndUpload_def processAndUpload_try_def)
      next
        case (Some user)
        then have "fst r = fst (upload_for_user limits e user k (megabytes (buf_length buf)) buf fn mime uid eid w)"
          using k False
          by (simp add: r_def ext_def processAndUpload_def processAndUpload_try_def)
        then show ?thesis
          using upload_for_user_errors [of limits e user k "megabytes (buf_length buf)" buf fn mime uid eid w]
          by auto
      qed
      then show ?thesis using False by simp
    qed
  qed
  have e: "maxFileSizeMB Image = 10 \<and> maxFileSizeMB Video = 100"
    by (simp add: maxFileSizeMB_def)
  have f: "(\<exists>x. fst r = Inl (UnsupportedFileType x)) \<or> (\<exists>k n. fst r = Inl (FileTooLarge k n)) \<longrightarrow>
            users (snd r) = users w \<and> timeline_entries (snd r) = timeline_entries w
            \<and> media_attachments (snd r) = media_attachments w
            \<and> last_media_id (snd r) = last_media_id w
            \<and> r2_objects (snd r) = r2_objects w"
  proof
    assume h: "(\<exists>x. fst r = Inl (UnsupportedFileType x)) \<or> (\<exists>k n. fst r = Inl (FileTooLarge k n))"
    have "\<exists>err. processAndUpload_try limits e buf fn mime uid eid w = (Inl err, w)"
    proof (cases "classify ext")
      case None
      then show ?thesis by (simp add: ext_def processAndUpload_try_def)
    next
      case (Some k)
      show ?thesis
      proof (cases "megabytes (buf_length buf) > of_nat (maxFileSizeMB k)")
        case True
        then show ?thesis using Some by (simp add: ext_def processAndUpload_try_def)
      next
        case False
        show ?thesis
        proof (cases "getUserById w uid")
          case None
          then show ?thesis using Some False by (simp add: ext_def processAndUpload_try_def)
        next
          case (Some user)
          then have "fst r = fst (upload_for_user limits e user k (megabytes (buf_length buf)) buf fn mime uid eid w)"
            using \<open>classify ext = Some k\<close> False
            by (simp add: r_def ext_def processAndUpload_def processAndUpload_try_def)
          then have False
            using h upload_for_user_errors [of limits e user k "megabytes (buf_length buf)" buf fn mime uid eid w]
            by auto
          then show ?thesis ..
        qed
      qed
    qed
    then obtain err where "processAndUpload_try limits e buf fn mime uid eid w = (Inl err, w)" ..
    then have "snd r = console_error ''Media processing error:'' err w"
      by (simp add: r_def processAndUpload_def log_and_rethrow_def)
    then show "users (snd r) = users w \<and> timeline_entries (snd r) = timeline_entries w
            \<and> media_attachments (snd r) = media_attachments w
            \<and> last_media_id (snd r) = last_media_id w
            \<and> r2_objects (snd r) = r2_objects w"
      by simp
  qed
  from a b c d e f show ?thesis by blast
qed

theorem validator_contract_witness:
  "fst (processAndUpload readme_limits example_env image_5mb ''notes.TXT'' ''text/plain'' 7 3 example_world)
     = Inl (UnsupportedFileType ''.txt'')
   \<and> users (snd (processAndUpload readme_limits example_env image_5mb ''notes.TXT'' ''text/plain'' 7 3 example_world))
     = users example_world
   \<and> classify (toLowerCase (extname ''photo.JPG'')) = Some Image
   \<and> classify (toLowerCase (extname ''clip.MOV'')) = Some Video
   \<and> fst (processAndUpload readme_limits example_env image_11mb ''photo.JPG'' ''image/jpeg'' 7 3 example_world)
     = Inl (FileTooLarge Image 10)
   \<and> r2_objects (snd (processAndUpload readme_limits example_env image_11mb ''photo.JPG'' ''image/jpeg'' 7 3 example_world))
     = r2_objects example_world
   \<and> fst (processAndUpload readme_limits example_env image_5mb ''photo.JPG'' ''image/jpeg'' 7 3 example_world)
     \<noteq> Inl (FileTooLarge Image 10)"
proof -
  have img: "''.jpg'' \<in> set supportedImages" "''.txt'' \<notin> set supportedImages"
            "''.mov'' \<notin> set supportedImages"
    by (simp_all add: supportedImages_def)
  have vid: "''.mov'' \<in> set supportedVideos" "''.txt'' \<notin> set supportedVideos"
    by (simp_all add: supportedVideos_def)
  note t1 = validator_contract [where fn = "''notes.TXT''" and limits = readme_limits
      and e = example_env and buf = image_5mb and mime = "''text/plain''" and uid = 7 and eid = 3
      and w = example_world]
  note t2 = validator_contract [where fn = "''photo.JPG''" and limits = readme_limits
      and e = example_env and buf = image_11mb and mime = "''image/jpeg''" and uid = 7 and eid = 3
      and w = example_world]
  note t3 = validator_contract [where fn = "''photo.JPG''" and limits = readme_limits
      and e = example_env and buf = image_5mb and mime = "''image/jpeg''" and uid = 7 and eid = 3
      and w = example_world]
  note t4 = validator_contract [where fn = "''clip.MOV''" and limits = readme_limits
      and e = example_env and buf = video_5mb and mime = "''video/quicktime''" and uid = 7 and eid = 3
      and w = example_world]
  have jpg: "classify ''.jpg'' = Some Image" and mov: "classify ''.mov'' = Some Video"
    using t3 t4 img vid by (simp_all add: ext_photo ext_clip)
  have a: "fst (processAndUpload readme_limits example_env image_5mb ''notes.TXT'' ''text/plain'' 7 3 example_world)
     = Inl (UnsupportedFileType ''.txt'')"
    using t1 img vid by (simp add: ext_notes)
  have b: "users (snd (processAndUpload readme_limits example_env image_5mb ''notes.TXT'' ''text/plain'' 7 3 example_world))
     = users example_world"
    using t1 a by blast
  have c: "fst (processAndUpload readme_limits example_env image_11mb ''photo.JPG'' ''image/jpeg'' 7 3 example_world)
     = Inl (FileTooLarge Image 10)"
    using t2 jpg by (simp add: ext_photo image_11mb_def megabytes_11 maxFileSizeMB_def)
  have d: "r2_objects (snd (processAndUpload readme_limits example_env image_11mb ''photo.JPG'' ''image/jpeg'' 7 3 example_world))
     = r2_objects example_world"
    using t2 c by blast
  have e: "fst (processAndUpload readme_limits example_env image_5mb ''photo.JPG'' ''image/jpeg'' 7 3 example_world)
     \<noteq> Inl (FileTooLarge Image 10)"
    using t3 jpg by (simp add: ext_photo image_5mb_def megabytes_5 maxFileSizeMB_def)
  from a b c d e jpg mov show ?thesis by (simp add: ext_photo ext_clip)
qed

section \<open>The quota decision\<close>

lemma processAndUpload_validated:
  assumes "classify (toLowerCase (extname fn)) = Some k"
    and "\<not> megabytes (buf_length buf) > of_nat (maxFileSizeMB k)"
    and "users w uid = Some user"
  shows "processAndUpload limits e buf fn mime uid eid w =
           log_and_rethrow ''Media processing error:''
             (upload_for_user limits e user k (megabytes (buf_length buf)) buf fn mime uid eid w)"
  using assms by (simp add: processAndUpload_def processAndUpload_try_def getUserById_def)

lemma upload_for_user_denied:
  "checkMediaUploadPermission limits uid mb (user_tier user) (storage_used_mb user) = Denied r \<Longrightarrow>
   upload_for_user limits e user k mb buf fn mime uid eid w = (Inl (QuotaExceeded r), w)"
  by (simp add: upload_for_user_def)

lemma upload_for_user_allowed_not_quota:
  assumes "checkMediaUploadPermission limits uid mb (user_tier user) (storage_used_mb user) = Allowed"
  shows "fst (upload_for_user limits e user k mb buf fn mime uid eid w) \<noteq> Inl (QuotaExceeded r)"
  using assms
  by (auto simp: upload_for_user_def uploadFile_def createMediaAttachment_def Let_def
           dest: processImage_result
           split: media_type.splits sum.splits prod.splits option.splits if_splits)

text \<open>
  Claim C1. The quota decision for an upload of size \<open>S\<close> by an account of tier \<open>t\<close>
  with usage \<open>U\<close>: under the unlimited ceiling the upload is admitted; under a zero
  ceiling it is rejected, the reason naming the tier; under any other ceiling it is
  admitted exactly when \<open>U + S\<close> is at most the ceiling (equality admits), and a
  rejection states the headroom, ceiling minus \<open>U\<close>. For an existing account and a file
  that passed validation, \<open>processAndUpload\<close> fails with the quota error carrying that
  reason exactly when the decision rejects.
\<close>

theorem quota_decision:
  fixes limits :: tier_limits and U S :: rat and t :: tier and uid :: nat
  defines "p \<equiv> checkMediaUploadPermission limits uid S t U"
  shows "(limits t = unlimited \<longrightarrow> p = Allowed)
       \<and> (limits t = 0 \<longrightarrow> p = Denied (NoStorageForTier t))
       \<and> (limits t \<noteq> unlimited \<and> limits t \<noteq> 0 \<longrightarrow>
            (p = Allowed \<longleftrightarrow> U + S \<le> limits t)
            \<and> (\<not> U + S \<le> limits t \<longrightarrow> p = Denied (OverQuota t (limits t - U))))
       \<and> (classify (toLowerCase (extname fn)) = Some k
            \<and> \<not> megabytes (buf_length buf) > of_nat (maxFileSizeMB k)
            \<and> users w uid = Some \<lparr>user_tier = t, storage_used_mb = U\<rparr>
            \<and> S = megabytes (buf_length buf) \<longrightarrow>
            (\<forall>r. p = Denied r \<longrightarrow>
               processAndUpload limits e buf fn mime uid eid w =
                 (Inl (QuotaExceeded r), console_error ''Media processing error:'' (QuotaExceeded r) w))
            \<and> (p = Allowed \<longrightarrow>
                 (\<forall>r. fst (processAndUpload limits e buf fn mime uid eid w) \<noteq> Inl (QuotaExceeded r))))"
proof -
  have a: "limits t = unlimited \<longrightarrow> p = Allowed"
    by (simp add: p_def checkMediaUploadPermission_def)
  have b: "limits t = 0 \<longrightarrow> p = Denied (NoStorageForTier t)"
    by (simp add: p_def checkMediaUploadPermission_def unlimited_def)
  have c: "limits t \<noteq> unlimited \<and> limits t \<noteq> 0 \<longrightarrow>
            (p = Allowed \<longleftrightarrow> U + S \<le> limits t)
            \<and> (\<not> U + S \<le> limits t \<longrightarrow> p = Denied (OverQuota t (limits t - U)))"
    by (simp add: p_def checkMediaUploadPermission_def Let_def)
  have d: "classify (toLowerCase (extname fn)) = Some k
            \<and> \<not> megabytes (buf_length buf) > of_nat (maxFileSizeMB k)
            \<and> users w uid = Some \<lparr>user_tier = t, storage_used_mb = U\<rparr>
            \<and> S = megabytes (buf_length buf) \<longrightarrow>
            (\<forall>r. p = Denied r \<longrightarrow>
               processAndUpload limits e buf fn mime uid eid w =
                 (Inl (QuotaExceeded r), console_error ''Media processing error:'' (QuotaExceeded r) w))
            \<and> (p = Allowed \<longrightarrow>
                 (\<forall>r. fst (processAndUpload limits e buf fn mime uid eid w) \<noteq> Inl (QuotaExceeded r)))"
  proof (intro impI, elim conjE)
    assume k: "classify (toLowerCase (extname fn)) = Some k"
      and sz: "\<not> megabytes (buf_length buf) > of_nat (maxFileSizeMB k)"
      and u: "users w uid = Some \<lparr>user_tier = t, storage_used_mb = U\<rparr>"
      and S: "S = megabytes (buf_length buf)"
    note run = processAndUpload_validated [OF k sz u, of limits e mime eid]
    have den: "\<forall>r. p = Denied r \<longrightarrow>
               processAndUpload limits e buf fn mime uid eid w =
                 (Inl (QuotaExceeded r), console_error ''Media processing error:'' (QuotaExceeded r) w)"
    proof (intro allI impI)
      fix r assume "p = Denied r"
      then have "upload_for_user limits e \<lparr>user_tier = t, storage_used_mb = U\<rparr> k
                   (megabytes (buf_length buf)) buf fn mime uid eid w = (Inl (QuotaExceeded r), w)"
        using S by (intro upload_for_user_denied) (simp add: p_def)
      then show "processAndUpload limits e buf fn mime uid eid w =
                 (Inl (QuotaExceeded r), console_error ''Media processing error:'' (QuotaExceeded r) w)"
        using run by (simp add: log_and_rethrow_def)
    qed
    have al: "p = Allowed \<longrightarrow>
                 (\<forall>r. fst (processAndUpload limits e buf fn mime uid eid w) \<noteq> Inl (QuotaExceeded r))"
    proof (intro allI impI)
      fix r assume "p = Allowed"
      then have "fst (upload_for_user limits e \<lparr>user_tier = t, storage_used_mb = U\<rparr> k
                   (megabytes (buf_length buf)) buf fn mime uid eid w) \<noteq> Inl (QuotaExceeded r)"
        using S by (intro upload_for_user_allowed_not_quota) (simp add: p_def)
      then show "fst (processAndUpload limits e buf fn mime uid eid w) \<noteq> Inl (QuotaExceeded r)"
        using run by simp
    qed
    from den al show "(\<forall>r. p = Denied r \<longrightarrow>
               processAndUpload limits e buf fn mime uid eid w =
                 (Inl (QuotaExceeded r), console_error ''Media processing error:'' (QuotaExceeded r) w))
            \<and> (p = Allowed \<longrightarrow>
                 (\<forall>r. fst (processAndUpload limits e buf fn mime uid eid w) \<noteq> Inl (QuotaExceeded r)))"
      by blast
  qed
  from a b c d show ?thesis by blast
qed

theorem quota_decision_witness:
  "checkMediaUploadPermission readme_limits 9 5 Pro 5000 = Allowed
   \<and> checkMediaUploadPermission readme_limits 8 5 Free 0 = Denied (NoStorageForTier Free)
   \<and> checkMediaUploadPermission readme_limits 7 10 Personal 590 = Allowed
   \<and> checkMediaUploadPermission readme_limits 7 20 Personal 590 = Denied (OverQuota Personal 10)
   \<and> processAndUpload readme_limits example_env image_5mb ''photo.JPG'' ''image/jpeg'' 8 3 example_world
       = (Inl (QuotaExceeded (NoStorageForTier Free)),
          console_error ''Media processing error:'' (QuotaExceeded (NoStorageForTier Free)) example_world)
   \<and> fst (processAndUpload readme_limits example_env video_5mb ''clip.MOV'' ''video/quicktime'' 7 3 example_world)
       \<noteq> Inl (QuotaExceeded (OverQuota Personal 10))"
proof -
  have lim: "readme_limits Pro = unlimited" "readme_limits Free = 0"
    "readme_limits Personal \<noteq> unlimited" "readme_limits Personal \<noteq> 0" "readme_limits Personal = 600"
    by (simp_all add: readme_limits_def unlimited_def)
  have jpg: "classify (toLowerCase (extname ''photo.JPG'')) = Some Image"
    and mov: "classify (toLowerCase (extname ''clip.MOV'')) = Some Video"
    by (simp_all add: ext_photo ext_clip classify_def supportedImages_def supportedVideos_def)
  have a: "checkMediaUploadPermission readme_limits 9 5 Pro 5000 = Allowed"
    using quota_decision [where limits = readme_limits and t = Pro and uid = 9 and S = 5 and U = 5000]
      lim by blast
  have b: "checkMediaUploadPermission readme_limits 8 5 Free 0 = Denied (NoStorageForTier Free)"
    using quota_decision [where limits = readme_limits and t = Free and uid = 8 and S = 5 and U = 0]
      lim by blast
  have c: "checkMediaUploadPermission readme_limits 7 10 Personal 590 = Allowed"
    using quota_decision [where limits = readme_limits and t = Personal and uid = 7 and S = 10 and U = 590]
      lim by simp
  have d: "checkMediaUploadPermission readme_limits 7 20 Personal 590 = Denied (OverQuota Personal 10)"
    using quota_decision [where limits = readme_limits and t = Personal and uid = 7 and S = 20 and U = 590]
      lim by simp
  have u8: "users example_world 8 = Some \<lparr>user_tier = Free, storage_used_mb = 0\<rparr>"
    and u7: "users example_world 7 = Some \<lparr>user_tier = Personal, storage_used_mb = 590\<rparr>"
    by (simp_all add: example_world_def)
  have e: "processAndUpload readme_limits example_env image_5mb ''photo.JPG'' ''image/jpeg'' 8 3 example_world
       = (Inl (QuotaExceeded (NoStorageForTier Free)),
          console_error ''Media processing error:'' (QuotaExceeded (NoStorageForTier Free)) example_world)"
    using quota_decision [where limits = readme_limits and t = Free and uid = 8 and S = 5 and U = 0
        and fn = "''photo.JPG''" and k = Image and buf = image_5mb and w = example_world
        and e = example_env and mime = "''image/jpeg''" and eid = 3]
      jpg u8 b
    by (simp add: image_5mb_def megabytes_5 maxFileSizeMB_def)
  have al: "checkMediaUploadPermission readme_limits 7 5 Personal 590 = Allowed"
    using quota_decision [where limits = readme_limits and t = Personal and uid = 7 and S = 5 and U = 590]
      lim by simp
  have f: "fst (processAndUpload readme_limits example_env video_5mb ''clip.MOV'' ''video/quicktime'' 7 3 example_world)
       \<noteq> Inl (QuotaExceeded (OverQuota Personal 10))"
    using quota_decision [where limits = readme_limits and t = Personal and uid = 7 and S = 5 and U = 590
        and fn = "''clip.MOV''" and k = Video and buf = video_5mb and w = example_world
        and e = example_env and mime = "''video/quicktime''" and eid = 3]
      mov u7 al
    by (simp add: video_5mb_def megabytes_5 maxFileSizeMB_def)
  from a b c d e f show ?thesis by blast
qed

section \<open>The ownership check of deletion and read access\<close>

lemma row_has_no_entry: "get_property (row_properties media) ''entry'' = JUndefined"
  by (simp add: get_property_def row_properties_def Let_def)

lemma row_entry_user_id:
  "get_property (row_properties media) ''entry_user_id'' = JNum (of_nat (joined_entry_user_id media))"
  by (simp add: get_property_def row_properties_def Let_def)

lemma deleteMedia_existing:
  assumes "getMediaAttachment w mediaId = Some media"
  shows "deleteMedia mediaId userId w =
           (Inl (TypeError ''Cannot read properties of undefined (reading user_id)''),
            console_error ''Media deletion error:''
              (TypeError ''Cannot read properties of undefined (reading user_id)'') w)"
  using assms
  by (simp add: deleteMedia_def row_has_no_entry read_member_def log_and_rethrow_def)

lemma getMediaUrl_existing:
  assumes "getMediaAttachment w mediaId = Some media"
  shows "getMediaUrl mediaId userId w =
           (Inl (TypeError ''Cannot read properties of undefined (reading user_id)''),
            console_error ''Get media URL error:''
              (TypeError ''Cannot read properties of undefined (reading user_id)'') w)"
  using assms
  by (simp add: getMediaUrl_def row_has_no_entry read_member_def log_and_rethrow_def)

lemma example_attachment:
  "getMediaAttachment example_world 4 =
     Some \<lparr>joined_id = 4, joined_media = cat_row, joined_entry_user_id = 7\<rparr>"
  by (simp add: getMediaAttachment_def example_world_def cat_row_def)

text \<open>
  Claim C3. Deletion and read-URL are to fail for a requester who does not own the
  attachment's entry and to proceed for the owner. The row that \<open>getMediaAttachment\<close>
  returns carries the owner in the column \<open>entry_user_id\<close> and has no property \<open>entry\<close>,
  so the check \<open>media.entry.user_id !== userId\<close> raises a TypeError for every existing
  attachment. At attachment 4, which account 7 owns: the owner's \<open>deleteMedia\<close> and
  \<open>getMediaUrl\<close> both fail with that TypeError, as does the request of account 8, and
  nothing but the console changes.
\<close>

theorem owner_request_fails:
  "getMediaAttachment example_world 4 =
     Some \<lparr>joined_id = 4, joined_media = cat_row, joined_entry_user_id = 7\<rparr>
   \<and> deleteMedia 4 7 example_world =
       (Inl (TypeError ''Cannot read properties of undefined (reading user_id)''),
        console_error ''Media deletion error:''
          (TypeError ''Cannot read properties of undefined (reading user_id)'') example_world)
   \<and> getMediaUrl 4 7 example_world =
       (Inl (TypeError ''Cannot read properties of undefined (reading user_id)''),
        console_error ''Get media URL error:''
          (TypeError ''Cannot read properties of undefined (reading user_id)'') example_world)
   \<and> deleteMedia 4 8 example_world =
       (Inl (TypeError ''Cannot read properties of undefined (reading user_id)''),
        console_error ''Media deletion error:''
          (TypeError ''Cannot read properties of undefined (reading user_id)'') example_world)"
  using example_attachment
  by (simp add: deleteMedia_existing getMediaUrl_existing)

section \<open>Deletion: the object store comes first\<close>

lemma deleteFile_tables [simp]:
  "users (snd (deleteFile key w)) = users w"
  "timeline_entries (snd (deleteFile key w)) = timeline_entries w"
  "media_attachments (snd (deleteFile key w)) = media_attachments w"
  "r2_rejects (snd (deleteFile key w)) = r2_rejects w"
  by (simp_all add: deleteFile_def split: option.splits)

lemma deleteFile_rejected:
  "r2_rejects w key = Some msg \<Longrightarrow>
   deleteFile key w = (Inl (FailedToDelete msg), console_error ''R2 delete error:'' (R2Error msg) w)"
  by (simp add: deleteFile_def)

lemma deleteFile_accepted:
  "r2_rejects w key = None \<Longrightarrow>
   deleteFile key w = (Inr True, w\<lparr>r2_objects := (r2_objects w)(key := None)\<rparr>)"
  by (simp add: deleteFile_def)

lemma deleteFile_keeps_absent:
  "r2_objects w k = None \<Longrightarrow> r2_objects (snd (deleteFile key w)) k = None"
  by (simp add: deleteFile_def split: option.splits)

lemma updateUserStorageUsage_fields [simp]:
  "timeline_entries (updateUserStorageUsage uid x w) = timeline_entries w"
  "media_attachments (updateUserStorageUsage uid x w) = media_attachments w"
  "r2_objects (updateUserStorageUsage uid x w) = r2_objects w"
  "r2_rejects (updateUserStorageUsage uid x w) = r2_rejects w"
  "console (updateUserStorageUsage uid x w) = console w"
  by (simp_all add: updateUserStorageUsage_def split: option.splits)

lemma updateUserStorageUsage_user:
  "users w uid = Some u \<Longrightarrow>
   users (updateUserStorageUsage uid x w) = (users w)(uid \<mapsto> u\<lparr>storage_used_mb := x\<rparr>)"
  by (simp add: updateUserStorageUsage_def)

lemma deleteMediaAttachment_fields [simp]:
  "users (deleteMediaAttachment mid w) = users w"
  "timeline_entries (deleteMediaAttachment mid w) = timeline_entries w"
  "r2_objects (deleteMediaAttachment mid w) = r2_objects w"
  "media_attachments (deleteMediaAttachment mid w) = (media_attachments w)(mid := None)"
  by (simp_all add: deleteMediaAttachment_def)

lemma deleteMedia_steps_rejected:
  assumes "r2_rejects w (r2_key (joined_media media)) = Some msg"
  shows "deleteMedia_steps media mediaId userId w =
           (Inl (FailedToDelete msg), console_error ''R2 delete error:'' (R2Error msg) w)"
  using assms by (simp add: deleteMedia_steps_def deleteFile_rejected)

lemma deleteMedia_steps_thumbnail_world:
  "users (snd (case t of None \<Rightarrow> (Inr True, w1)
                 | Some k \<Rightarrow> if k = [] then (Inr True, w1) else deleteFile k w1)) = users w1"
  "media_attachments (snd (case t of None \<Rightarrow> (Inr True, w1)
                 | Some k \<Rightarrow> if k = [] then (Inr True, w1) else deleteFile k w1)) = media_attachments w1"
  "r2_objects w1 p = None \<Longrightarrow>
   r2_objects (snd (case t of None \<Rightarrow> (Inr True, w1)
                 | Some k \<Rightarrow> if k = [] then (Inr True, w1) else deleteFile k w1)) p = None"
  by (auto simp: deleteFile_keeps_absent split: option.splits)

lemma deleteMedia_steps_accepted:
  assumes "r2_rejects w (r2_key (joined_media media)) = None"
  shows "r2_objects (snd (deleteMedia_steps media mediaId userId w)) (r2_key (joined_media media)) = None"
proof -
  let ?w1 = "w\<lparr>r2_objects := (r2_objects w)(r2_key (joined_media media) := None)\<rparr>"
  let ?th = "case thumbnail_r2_key (joined_media media) of None \<Rightarrow> (Inr True, ?w1)
                 | Some k \<Rightarrow> if k = [] then (Inr True, ?w1) else deleteFile k ?w1"
  have abs: "r2_objects (snd ?th) (r2_key (joined_media media)) = None"
    by (rule deleteMedia_steps_thumbnail_world) simp
  obtain res w2 where th: "?th = (res, w2)" by (cases ?th)
  with abs have w2: "r2_objects w2 (r2_key (joined_media media)) = None" by simp
  show ?thesis
    using assms th w2
    by (cases res)
       (auto simp: deleteMedia_steps_def deleteFile_accepted Let_def getUserById_def
             split: option.splits)
qed

text \<open>
  Claim C4. In the steps of a deletion the primary object is deleted from the bucket
  before any table is touched. If the bucket rejects that delete, the steps abort with
  the delete error, and the attachment rows, the accounts (so every usage counter) and
  the bucket are as before. Conversely, whenever the steps have changed an attachment
  row or an account, the delete was accepted and the primary object is gone.
\<close>

theorem object_delete_precedes_metadata:
  fixes media :: joined_row and mediaId userId :: nat and w :: world
  defines "primary \<equiv> r2_key (joined_media media)"
  defines "r \<equiv> deleteMedia_steps media mediaId userId w"
  shows "(\<forall>msg. r2_rejects w primary = Some msg \<longrightarrow>
            r = (Inl (FailedToDelete msg), console_error ''R2 delete error:'' (R2Error msg) w))
       \<and> (r2_rejects w primary \<noteq> None \<longrightarrow>
            media_attachments (snd r) = media_attachments w \<and> users (snd r) = users w
            \<and> r2_objects (snd r) = r2_objects w)
       \<and> (media_attachments (snd r) \<noteq> media_attachments w \<or> users (snd r) \<noteq> users w \<longrightarrow>
            r2_rejects w primary = None \<and> r2_objects (snd r) primary = None)"
proof -
  have a: "\<forall>msg. r2_rejects w primary = Some msg \<longrightarrow>
            r = (Inl (FailedToDelete msg), console_error ''R2 delete error:'' (R2Error msg) w)"
    unfolding r_def primary_def by (simp add: deleteMedia_steps_rejected)
  have b: "r2_rejects w primary \<noteq> None \<longrightarrow>
            media_attachments (snd r) = media_attachments w \<and> users (snd r) = users w
            \<and> r2_objects (snd r) = r2_objects w"
    using a by auto
  have c: "media_attachments (snd r) \<noteq> media_attachments w \<or> users (snd r) \<noteq> users w \<longrightarrow>
            r2_rejects w primary = None \<and> r2_objects (snd r) primary = None"
  proof
    assume ch: "media_attachments (snd r) \<noteq> media_attachments w \<or> users (snd r) \<noteq> users w"
    with b have acc: "r2_rejects w primary = None" by blast
    then have "r2_objects (snd r) primary = None"
      unfolding r_def primary_def by (rule deleteMedia_steps_accepted)
    with acc show "r2_rejects w primary = None \<and> r2_objects (snd r) primary = None" ..
  qed
  from a b c show ?thesis by blast
qed

lemma deleteMedia_steps_example:
  "deleteMedia_steps cat_joined 4 7 example_world =
     (Inr True,
      example_world\<lparr>r2_objects := Map.empty, media_attachments := Map.empty,
        users := (users example_world)(7 \<mapsto> \<lparr>user_tier = Personal, storage_used_mb = 585\<rparr>)\<rparr>)"
  by (simp add: deleteMedia_steps_def cat_joined_def cat_row_def deleteFile_def example_world_def
        deleteMediaAttachment_def getUserById_def updateUserStorageUsage_def Let_def)

theorem object_delete_precedes_metadata_witness:
  "r2_rejects outage_world (r2_key (joined_media cat_joined)) = Some ''503 Service Unavailable''
   \<and> deleteMedia_steps cat_joined 4 7 outage_world =
       (Inl (FailedToDelete ''503 Service Unavailable''),
        console_error ''R2 delete error:'' (R2Error ''503 Service Unavailable'') outage_world)
   \<and> media_attachments (snd (deleteMedia_steps cat_joined 4 7 outage_world)) 4 = Some cat_row
   \<and> users (snd (deleteMedia_steps cat_joined 4 7 outage_world)) 7
       = Some \<lparr>user_tier = Personal, storage_used_mb = 590\<rparr>
   \<and> r2_objects (snd (deleteMedia_steps cat_joined 4 7 outage_world)) cat_key
       = Some \<lparr>buf_length = 5242880, buf_image = Some (800, 600)\<rparr>
   \<and> media_attachments (snd (deleteMedia_steps cat_joined 4 7 example_world)) 4 = None
   \<and> r2_objects (snd (deleteMedia_steps cat_joined 4 7 example_world)) cat_key = None"
proof -
  have rej: "r2_rejects outage_world (r2_key (joined_media cat_joined)) = Some ''503 Service Unavailable''"
    by (simp add: outage_world_def cat_joined_def cat_row_def)
  have nrej: "r2_rejects outage_world (r2_key (joined_media cat_joined)) \<noteq> None"
    using rej by simp
  note t = object_delete_precedes_metadata [where media = cat_joined and mediaId = 4 and userId = 7
      and w = outage_world]
  have a: "deleteMedia_steps cat_joined 4 7 outage_world =
       (Inl (FailedToDelete ''503 Service Unavailable''),
        console_error ''R2 delete error:'' (R2Error ''503 Service Unavailable'') outage_world)"
    using t rej by blast
  have same: "media_attachments (snd (deleteMedia_steps cat_joined 4 7 outage_world)) = media_attachments outage_world
      \<and> users (snd (deleteMedia_steps cat_joined 4 7 outage_world)) = users outage_world
      \<and> r2_objects (snd (deleteMedia_steps cat_joined 4 7 outage_world)) = r2_objects outage_world"
    using t nrej by blast
  have b: "media_attachments (snd (deleteMedia_steps cat_joined 4 7 outage_world)) 4 = Some cat_row"
    "users (snd (deleteMedia_steps cat_joined 4 7 outage_world)) 7
       = Some \<lparr>user_tier = Personal, storage_used_mb = 590\<rparr>"
    "r2_objects (snd (deleteMedia_steps cat_joined 4 7 outage_world)) cat_key
       = Some \<lparr>buf_length = 5242880, buf_image = Some (800, 600)\<rparr>"
    using same by (simp_all add: outage_world_def example_world_def)
  have gone: "media_attachments (snd (deleteMedia_steps cat_joined 4 7 example_world)) 4 = None"
    by (simp add: deleteMedia_steps_example)
  have was: "media_attachments example_world 4 = Some cat_row"
    by (simp add: example_world_def)
  have changed: "media_attachments (snd (deleteMedia_steps cat_joined 4 7 example_world))
                   \<noteq> media_attachments example_world"
    using gone was by (metis option.distinct(1))
  have key: "r2_key (joined_media cat_joined) = cat_key"
    by (simp add: cat_joined_def cat_row_def)
  have "r2_objects (snd (deleteMedia_steps cat_joined 4 7 example_world))
          (r2_key (joined_media cat_joined)) = None"
    using object_delete_precedes_metadata [where media = cat_joined and mediaId = 4 and userId = 7
      and w = example_world] changed
    by blast
  then have c: "r2_objects (snd (deleteMedia_steps cat_joined 4 7 example_world)) cat_key = None"
    by (simp only: key)
  from rej a b gone c show ?thesis by blast
qed

section \<open>Deletion: the usage counter\<close>

text \<open>
  What lines 186 to 199 do to the counter when they run to their end: the usage \<open>V\<close> of
  the account becomes \<open>V - F\<close> for the recorded size \<open>F\<close>, as line 197 computes it.
\<close>

lemma deleteMedia_steps_success:
  assumes "deleteMedia_steps media mediaId userId w = (Inr ok, w')"
  shows "\<exists>u. users w userId = Some u
           \<and> users w' = (users w)(userId \<mapsto>
                 u\<lparr>storage_used_mb := storage_used_mb u - file_size_mb (joined_media media)\<rparr>)"
proof -
  obtain r1 w1 where d1: "deleteFile (r2_key (joined_media media)) w = (r1, w1)"
    by (cases "deleteFile (r2_key (joined_media media)) w")
  have u1: "users w1 = users w" using d1 deleteFile_tables(1) [of "r2_key (joined_media media)" w] by simp
  obtain r2 w2 where d2:
    "(case thumbnail_r2_key (joined_media media) of None \<Rightarrow> (Inr True, w1)
        | Some k \<Rightarrow> if k = [] then (Inr True, w1) else deleteFile k w1) = (r2, w2)"
    by (cases "(case thumbnail_r2_key (joined_media media) of None \<Rightarrow> (Inr True, w1)
        | Some k \<Rightarrow> if k = [] then (Inr True, w1) else deleteFile k w1)")
  have u2: "users w2 = users w1"
    using d2 deleteMedia_steps_thumbnail_world(1) [where t = "thumbnail_r2_key (joined_media media)" and ?w1.0 = w1] by simp
  show ?thesis
    using assms d1 d2 u1 u2
    by (auto simp: deleteMedia_steps_def Let_def getUserById_def updateUserStorageUsage_user
             split: sum.splits option.splits)
qed

text \<open>
  The whole \<open>deleteMedia\<close> returns success for no input and changes neither the tables
  nor the bucket.
\<close>

lemma deleteMedia_missing:
  assumes "getMediaAttachment w mediaId = None"
  shows "deleteMedia mediaId userId w =
           (Inl MediaNotFoundOrAccessDenied,
            console_error ''Media deletion error:'' MediaNotFoundOrAccessDenied w)"
  using assms by (simp add: deleteMedia_def log_and_rethrow_def)

lemma deleteMedia_never_succeeds: "fst (deleteMedia mediaId userId w) \<noteq> Inr ok"
proof (cases "getMediaAttachment w mediaId")
  case None
  then show ?thesis by (simp add: deleteMedia_missing)
next
  case (Some media)
  then show ?thesis by (simp add: deleteMedia_existing)
qed

lemma deleteMedia_changes_nothing:
  "users (snd (deleteMedia mediaId userId w)) = users w
   \<and> timeline_entries (snd (deleteMedia mediaId userId w)) = timeline_entries w
   \<and> media_attachments (snd (deleteMedia mediaId userId w)) = media_attachments w
   \<and> r2_objects (snd (deleteMedia mediaId userId w)) = r2_objects w"
proof (cases "getMediaAttachment w mediaId")
  case None
  then show ?thesis by (simp add: deleteMedia_missing)
next
  case (Some media)
  then show ?thesis by (simp add: deleteMedia_existing)
qed



section \<open>Upload: a failed metadata insert\<close>

lemma key_clip: "object_key example_env ''clip.MOV'' 7 = ''users/7/1234_0123456789abcdef_clip.MOV''"
  by code_simp

lemma processImage_world:
  "processImage e b w = (Inr v, w') \<Longrightarrow> w' = w"
  by (auto simp: processImage_def sharp_metadata_def Let_def split: option.splits prod.splits)

lemma upload_for_user_sqlite:
  assumes "upload_for_user limits e user k mb buf fn mime uid eid w = (Inl (SqliteError msg), w')"
  shows "\<exists>stored. w' = w\<lparr>r2_objects := (r2_objects w)(object_key e fn uid \<mapsto> stored)\<rparr>
           \<and> timeline_entries w eid = None \<and> r2_rejects w (object_key e fn uid) = None"
  using assms
  by (auto simp: upload_for_user_def uploadFile_def createMediaAttachment_def Let_def
           dest: processImage_result processImage_world
           split: permission.splits media_type.splits sum.splits prod.splits option.splits if_splits)

lemma processAndUpload_sqlite:
  assumes "processAndUpload limits e buf fn mime uid eid w = (Inl (SqliteError msg), w')"
  shows "\<exists>stored. w' = console_error ''Media processing error:'' (SqliteError msg)
                         (w\<lparr>r2_objects := (r2_objects w)(object_key e fn uid \<mapsto> stored)\<rparr>)
           \<and> timeline_entries w eid = None \<and> r2_rejects w (object_key e fn uid) = None"
proof -
  obtain r0 w0 where run: "processAndUpload_try limits e buf fn mime uid eid w = (r0, w0)"
    by (cases "processAndUpload_try limits e buf fn mime uid eid w")
  with assms have r0: "r0 = Inl (SqliteError msg)"
    and w': "w' = console_error ''Media processing error:'' (SqliteError msg) w0"
    by (auto simp: processAndUpload_def log_and_rethrow_def split: sum.splits)
  from run r0 obtain user k where
    "upload_for_user limits e user k (megabytes (buf_length buf)) buf fn mime uid eid w
       = (Inl (SqliteError msg), w0)"
    by (auto simp: processAndUpload_try_def Let_def split: option.splits if_splits)
  from upload_for_user_sqlite [OF this] w' show ?thesis by blast
qed

text \<open>
  Claim C5, as the code has it. When \<open>processAndUpload\<close> fails with the error of the
  metadata insert, the object-store commit before it had succeeded: the object written
  under the generated key is still in the bucket (the rest of the bucket is as before),
  the tables are unchanged, and the only line added to the console is the handler's
  own, carrying the insert's error. No delete of the object is attempted.
\<close>

theorem failed_insert_leaves_object:
  assumes "processAndUpload limits e buf fn mime uid eid w = (Inl (SqliteError msg), w')"
  shows "r2_objects w' (object_key e fn uid) \<noteq> None
       \<and> (\<forall>k. k \<noteq> object_key e fn uid \<longrightarrow> r2_objects w' k = r2_objects w k)
       \<and> r2_rejects w (object_key e fn uid) = None
       \<and> users w' = users w \<and> media_attachments w' = media_attachments w
       \<and> timeline_entries w' = timeline_entries w
       \<and> console w' = console w @ [(''Media processing error:'', SqliteError msg)]"
  using processAndUpload_sqlite [OF assms] by (auto simp: console_error_def)

lemma upload_unknown_entry:
  "processAndUpload readme_limits example_env video_5mb ''clip.MOV'' ''video/quicktime'' 7 99 example_world
     = (Inl (SqliteError ''FOREIGN KEY constraint failed''),
        example_world\<lparr>r2_objects := (r2_objects example_world)
                        (''users/7/1234_0123456789abcdef_clip.MOV'' \<mapsto> video_5mb),
                      console := [(''Media processing error:'', SqliteError ''FOREIGN KEY constraint failed'')]\<rparr>)"
  by (simp add: processAndUpload_def processAndUpload_try_def ext_clip classify_def
        supportedImages_def supportedVideos_def maxFileSizeMB_def video_5mb_def megabytes_5
        getUserById_def upload_for_user_def checkMediaUploadPermission_def readme_limits_def
        unlimited_def getVideoDimensions_def uploadFile_def key_clip createMediaAttachment_def
        log_and_rethrow_def console_error_def example_world_def Let_def)

theorem failed_insert_leaves_object_witness:
  "fst (processAndUpload readme_limits example_env video_5mb ''clip.MOV'' ''video/quicktime'' 7 99 example_world)
     = Inl (SqliteError ''FOREIGN KEY constraint failed'')
   \<and> r2_objects (snd (processAndUpload readme_limits example_env video_5mb ''clip.MOV''
                          ''video/quicktime'' 7 99 example_world))
         (object_key example_env ''clip.MOV'' 7) \<noteq> None
   \<and> r2_rejects example_world (object_key example_env ''clip.MOV'' 7) = None
   \<and> users (snd (processAndUpload readme_limits example_env video_5mb ''clip.MOV''
                     ''video/quicktime'' 7 99 example_world)) = users example_world
   \<and> media_attachments (snd (processAndUpload readme_limits example_env video_5mb ''clip.MOV''
                     ''video/quicktime'' 7 99 example_world)) = media_attachments example_world
   \<and> console (snd (processAndUpload readme_limits example_env video_5mb ''clip.MOV''
                       ''video/quicktime'' 7 99 example_world))
       = console example_world
           @ [(''Media processing error:'', SqliteError ''FOREIGN KEY constraint failed'')]"
  using failed_insert_leaves_object [OF upload_unknown_entry]
  by (simp add: upload_unknown_entry)

text \<open>
  The claim's compensation fails at an upload to a timeline entry that does not exist
  (entry 99): the INSERT is rejected by the foreign key, the call fails with that error,
  the bucket, which would have accepted a delete of the key, still holds the object that
  the call wrote, and the console names the insert's error and not the key.
\<close>

theorem orphan_without_compensation:
  "fst (processAndUpload readme_limits example_env video_5mb ''clip.MOV'' ''video/quicktime'' 7 99 example_world)
     = Inl (SqliteError ''FOREIGN KEY constraint failed'')
   \<and> r2_rejects example_world ''users/7/1234_0123456789abcdef_clip.MOV'' = None
   \<and> r2_objects example_world ''users/7/1234_0123456789abcdef_clip.MOV'' = None
   \<and> r2_objects (snd (processAndUpload readme_limits example_env video_5mb ''clip.MOV''
                          ''video/quicktime'' 7 99 example_world))
         ''users/7/1234_0123456789abcdef_clip.MOV'' = Some video_5mb
   \<and> console (snd (processAndUpload readme_limits example_env video_5mb ''clip.MOV''
                       ''video/quicktime'' 7 99 example_world))
       = [(''Media processing error:'', SqliteError ''FOREIGN KEY constraint failed'')]"
  by (simp add: upload_unknown_entry) (simp add: example_world_def cat_key_def)

section \<open>Image normalisation\<close>

lemma processImage_landscape:
  assumes "buf_image b = Some (mw, mh)" and "mw > mh" and "mw > 2048"
  shows "processImage e b w =
           (Inr (\<lparr>buf_length = jpeg_length e b 2048 (scale_round mw 2048 mh),
                  buf_image = Some (2048, scale_round mw 2048 mh)\<rparr>,
                 \<lparr>width = 2048, height = scale_round mw 2048 mh, duration = None\<rparr>), w)"
  using assms
  by (simp add: processImage_def sharp_metadata_def maxDimension_def sharp_resize_def Let_def)

lemma processImage_portrait:
  assumes "buf_image b = Some (mw, mh)" and "mh > mw" and "mh > 2048"
  shows "processImage e b w =
           (Inr (\<lparr>buf_length = jpeg_length e b (scale_round mh 2048 mw) 2048,
                  buf_image = Some (scale_round mh 2048 mw, 2048)\<rparr>,
                 \<lparr>width = scale_round mh 2048 mw, height = 2048, duration = None\<rparr>), w)"
  using assms
  by (simp add: processImage_def sharp_metadata_def maxDimension_def sharp_resize_def Let_def)

lemma processImage_square:
  assumes "buf_image b = Some (s, s)"
  shows "processImage e b w =
           (Inr (\<lparr>buf_length = jpeg_length e b s s, buf_image = Some (s, s)\<rparr>,
                 \<lparr>width = s, height = s, duration = None\<rparr>), w)"
  using assms
  by (simp add: processImage_def sharp_metadata_def maxDimension_def sharp_resize_def Let_def)

text \<open>
  Claim C6. An image whose longer side exceeds 2048 px is to come out with its longer
  side at 2048. \<open>processImage\<close> asks for a width only when the width is strictly greater
  than the height and for a height only when the height is strictly greater than the
  width, so for a square image it passes neither to \<open>resize\<close> and the image keeps its
  size: a 3000 by 3000 image is re-encoded at 3000 by 3000, and these are the
  dimensions returned. (For an image that is not square the longer side does come out
  at 2048, and the returned dimensions are read from the re-encoded buffer.)
\<close>

theorem square_image_not_resized:
  "sharp_metadata square_image = Some (3000, 3000)
   \<and> processImage example_env square_image example_world =
       (Inr (\<lparr>buf_length = 5242880, buf_image = Some (3000, 3000)\<rparr>,
             \<lparr>width = 3000, height = 3000, duration = None\<rparr>), example_world)"
  by (simp add: processImage_square sharp_metadata_def square_image_def example_env_def)

section \<open>The object key\<close>

lemma length_hex_byte [simp]: "length (hex_byte b) = 2"
  by (simp add: hex_byte_def)

lemma length_toString_hex: "length (toString_hex bs) = 2 * length bs"
  by (induction bs) (simp_all add: toString_hex_def)

lemma length_bytes8 [simp]: "length (bytes8 x) = 8"
  by (simp add: bytes8_def)

lemma hex_digit_mem: "d < 16 \<Longrightarrow> hex_digit d \<in> set ''0123456789abcdef''"
  unfolding hex_digit_def by (rule nth_mem) simp

lemma high_nibble: "unat (drop_bit 4 (b :: 8 word)) < 16"
proof -
  have "unat b < 256" using unsigned_less [of b] by simp
  then have "unat b div 16 < 16" by simp
  then show ?thesis by (simp add: unat_drop_bit_eq drop_bit_eq_div unat_div)
qed

lemma low_nibble: "unat ((b :: 8 word) AND 15) < 16"
proof -
  have m: "(15 :: nat) = mask 4" by (simp add: mask_eq_exp_minus_1)
  have "unat (b AND 15) = unat b AND 15" by (simp add: unsigned_and_eq)
  also have "\<dots> = take_bit 4 (unat b)" unfolding m by (simp add: take_bit_eq_mask)
  also have "\<dots> = unat b mod 16" by (simp add: take_bit_eq_mod)
  finally show ?thesis by simp
qed

lemma hex_byte_chars: "c \<in> set (hex_byte b) \<Longrightarrow> c \<in> set ''0123456789abcdef''"
  using hex_digit_mem [OF high_nibble, of b] hex_digit_mem [OF low_nibble, of b]
  by (auto simp: hex_byte_def)

lemma toString_hex_chars: "c \<in> set (toString_hex bs) \<Longrightarrow> c \<in> set ''0123456789abcdef''"
  by (auto simp: toString_hex_def dest: hex_byte_chars)

lemma digit_char_is_digit: "d < 10 \<Longrightarrow> is_digit (digit_char d)"
proof -
  assume "d < 10"
  then have "digit_char d \<in> set ''0123456789''"
    unfolding digit_char_def by (intro nth_mem) simp
  moreover have "\<forall>c \<in> set ''0123456789''. is_digit c"
    by (simp add: is_digit_def)
  ultimately show ?thesis by blast
qed

lemma decimal_digits: "c \<in> set (decimal n) \<Longrightarrow> is_digit c"
proof (induction n arbitrary: c rule: decimal.induct)
  case (1 n)
  show ?case
  proof (cases "n < 10")
    case True
    with "1.prems" show ?thesis
      by (subst (asm) decimal.simps) (simp add: digit_char_is_digit)
  next
    case False
    with "1.prems" have "c \<in> set (decimal (n div 10)) \<or> c = digit_char (n mod 10)"
      by (subst (asm) decimal.simps) auto
    then show ?thesis
      using "1.IH" [OF False] digit_char_is_digit [of "n mod 10"] by auto
  qed
qed

lemma sanitize_allowed: "c \<in> set (sanitize s) \<Longrightarrow> allowed_char c"
  by (auto simp: sanitize_def allowed_char_def)

lemma length_last_component: "length (last_component p) \<le> length p"
proof -
  have "length (last_component p) \<le> length (strip_trailing_slashes p)"
    unfolding last_component_def
    using length_takeWhile_le [of "\<lambda>c. c \<noteq> CHR ''/''" "rev (strip_trailing_slashes p)"] by simp
  also have "\<dots> \<le> length p"
    unfolding strip_trailing_slashes_def
    using length_dropWhile_le [of "\<lambda>c. c = CHR ''/''" "rev p"] by simp
  finally show ?thesis .
qed

lemma base_and_extension: "basename_suffix p (extname p) @ extname p = last_component p"
proof -
  define comp where "comp = last_component p"
  define n where "n = length (takeWhile (\<lambda>c. c \<noteq> CHR ''.'') (rev comp))"
  show ?thesis
  proof (cases "extname p = []")
    case True
    then show ?thesis by (simp add: basename_suffix_def)
  next
    case False
    then have dot: "CHR ''.'' \<in> set comp" and n: "n + 1 \<noteq> length comp"
      and ext: "extname p = drop (length comp - (n + 1)) comp"
      unfolding extname_def comp_def [symmetric] n_def Let_def
      by (auto split: if_splits)
    have "n \<le> length comp"
      unfolding n_def using length_takeWhile_le [of "\<lambda>c. c \<noteq> CHR ''.''" "rev comp"] by simp
    moreover have "n \<noteq> length comp"
    proof
      assume "n = length comp"
      then have "takeWhile (\<lambda>c. c \<noteq> CHR ''.'') (rev comp) = rev comp"
        unfolding n_def by (metis length_rev takeWhile_eq_take take_all order_refl)
      then have "\<forall>c \<in> set (rev comp). c \<noteq> CHR ''.''"
        by (metis set_takeWhileD)
      with dot show False by auto
    qed
    ultimately have lt: "n + 1 < length comp" using n by simp
    then have len: "length (extname p) = n + 1" by (simp add: ext)
    have ne: "extname p \<noteq> p"
      using len lt length_last_component [of p] comp_def by auto
    have ends: "ends_with comp (extname p)"
      unfolding ends_with_def using lt by (simp add: len) (simp add: ext)
    have "basename_suffix p (extname p) = take (length comp - (n + 1)) comp"
      unfolding basename_suffix_def comp_def [symmetric] Let_def
      using False ne ends lt len by simp
    then show ?thesis by (simp add: ext comp_def)
  qed
qed

lemma upload_for_user_success:
  assumes "upload_for_user limits e user k mb buf fn mime uid eid w = (Inr res, w')"
  shows "\<exists>processed dims.
           (case k of
              Image \<Rightarrow> processImage e buf w = (Inr (processed, dims), w)
            | Video \<Rightarrow> processed = buf \<and> dims = getVideoDimensions buf)
         \<and> res = \<lparr>res_id = Suc (last_media_id w), res_url = PublicUrl (object_key e fn uid),
                  res_mediaType = k, res_dimensions = dims, res_fileSize = buf_length processed\<rparr>
         \<and> w' = updateUserStorageUsage uid (storage_used_mb user + megabytes (buf_length processed))
                  (w\<lparr>r2_objects := (r2_objects w)(object_key e fn uid \<mapsto> processed),
                     media_attachments := (media_attachments w)(Suc (last_media_id w) \<mapsto>
                       \<lparr>entry_id = eid, media_kind = k,
                        filename = basename (object_key e fn uid),
                        original_filename = fn,
                        file_size_mb = megabytes (buf_length processed),
                        r2_key = object_key e fn uid,
                        thumbnail_r2_key = None,
                        media_width = width dims, media_height = height dims,
                        media_duration = duration_or_null (duration dims),
                        status = Complete\<rparr>),
                     last_media_id := Suc (last_media_id w)\<rparr>)"
proof (cases k)
  case Image
  with assms obtain processed dims where
    p: "processImage e buf w = (Inr (processed, dims), w)"
    by (auto simp: upload_for_user_def dest: processImage_world
             split: permission.splits sum.splits prod.splits)
  show ?thesis
    using assms Image p
    by (auto simp: upload_for_user_def uploadFile_def createMediaAttachment_def Let_def
             split: permission.splits sum.splits prod.splits option.splits if_splits)
next
  case Video
  show ?thesis
    using assms Video
    by (auto simp: upload_for_user_def uploadFile_def createMediaAttachment_def Let_def
             split: permission.splits sum.splits prod.splits option.splits if_splits)
qed

lemma processAndUpload_success:
  assumes "processAndUpload limits e buf fn mime uid eid w = (Inr res, w')"
  shows "\<exists>user k. users w uid = Some user \<and> classify (toLowerCase (extname fn)) = Some k
           \<and> upload_for_user limits e user k (megabytes (buf_length buf)) buf fn mime uid eid w
               = (Inr res, w')"
proof -
  obtain r0 w0 where run: "processAndUpload_try limits e buf fn mime uid eid w = (r0, w0)"
    by (cases "processAndUpload_try limits e buf fn mime uid eid w")
  with assms have "r0 = Inr res" and "w0 = w'"
    by (auto simp: processAndUpload_def log_and_rethrow_def split: sum.splits)
  with run show ?thesis
    by (auto simp: processAndUpload_try_def getUserById_def Let_def split: option.splits if_splits)
qed

lemma upload_clip_example:
  "processAndUpload readme_limits example_env video_5mb ''clip.MOV'' ''video/quicktime'' 7 3 example_world
     = (Inr \<lparr>res_id = 5, res_url = PublicUrl ''users/7/1234_0123456789abcdef_clip.MOV'',
             res_mediaType = Video,
             res_dimensions = \<lparr>width = 1920, height = 1080, duration = Some 60\<rparr>,
             res_fileSize = 5242880\<rparr>,
        example_world
          \<lparr>users := (users example_world)(7 \<mapsto> \<lparr>user_tier = Personal, storage_used_mb = 595\<rparr>),
           media_attachments := (media_attachments example_world)(5 \<mapsto>
             \<lparr>entry_id = 3, media_kind = Video,
              filename = ''1234_0123456789abcdef_clip.MOV'',
              original_filename = ''clip.MOV'', file_size_mb = 5,
              r2_key = ''users/7/1234_0123456789abcdef_clip.MOV'',
              thumbnail_r2_key = None, media_width = 1920, media_height = 1080,
              media_duration = Some 60, status = Complete\<rparr>),
           last_media_id := 5,
           r2_objects := (r2_objects example_world)
                           (''users/7/1234_0123456789abcdef_clip.MOV'' \<mapsto> video_5mb)\<rparr>)"
proof -
  have bn: "basename ''users/7/1234_0123456789abcdef_clip.MOV'' = ''1234_0123456789abcdef_clip.MOV''"
    by code_simp
  show ?thesis
    by (simp add: processAndUpload_def processAndUpload_try_def ext_clip classify_def
        supportedImages_def supportedVideos_def maxFileSizeMB_def video_5mb_def megabytes_5
        getUserById_def upload_for_user_def checkMediaUploadPermission_def readme_limits_def
        unlimited_def getVideoDimensions_def uploadFile_def key_clip createMediaAttachment_def
        log_and_rethrow_def example_world_def updateUserStorageUsage_def duration_or_null_def
        bn Let_def)
qed

text \<open>
  Claim C8. The key under which an upload is stored is \<open>users/\<close>, the account id in
  decimal, \<open>/\<close>, the time stamp in decimal, \<open>_\<close>, the random component, \<open>_\<close>, the
  sanitised base name and the extension. The random component is 16 characters, all
  lower-case hexadecimal digits. The sanitised base name is the base of the original
  file name (its last path component without the extension), every character outside
  letters, digits, \<open>-\<close> and \<open>_\<close> replaced by \<open>_\<close>, cut to 50 characters. Every successful
  \<open>processAndUpload\<close> stores the object and records the attachment under this key.
\<close>

theorem object_key_format:
  fixes e :: env and fn :: string and uid :: nat
  defines "rnd \<equiv> toString_hex (bytes8 (random_bytes e))"
  defines "base \<equiv> basename_suffix fn (extname fn)"
  defines "sane \<equiv> take 50 (map (\<lambda>c. if allowed_char c then c else CHR ''_'') base)"
  shows "object_key e fn uid =
           ''users/'' @ decimal uid @ ''/'' @ decimal (now e) @ ''_'' @ rnd @ ''_'' @ sane @ extname fn
       \<and> length rnd = 16 \<and> (\<forall>c \<in> set rnd. c \<in> set ''0123456789abcdef'')
       \<and> (\<forall>c \<in> set (decimal uid). is_digit c) \<and> (\<forall>c \<in> set (decimal (now e)). is_digit c)
       \<and> length sane \<le> 50 \<and> (\<forall>c \<in> set sane. allowed_char c)
       \<and> base @ extname fn = last_component fn
       \<and> (\<forall>limits buf mime eid w res w'.
             processAndUpload limits e buf fn mime uid eid w = (Inr res, w') \<longrightarrow>
               (\<exists>m. media_attachments w' (res_id res) = Some m \<and> r2_key m = object_key e fn uid)
               \<and> r2_objects w' (object_key e fn uid) \<noteq> None
               \<and> res_url res = PublicUrl (object_key e fn uid))"
proof -
  have a: "object_key e fn uid =
           ''users/'' @ decimal uid @ ''/'' @ decimal (now e) @ ''_'' @ rnd @ ''_'' @ sane @ extname fn"
    by (simp add: object_key_def rnd_def sane_def base_def sanitize_def Let_def)
  have b: "length rnd = 16"
    by (simp add: rnd_def length_toString_hex)
  have c: "\<forall>c \<in> set rnd. c \<in> set ''0123456789abcdef''"
    unfolding rnd_def using toString_hex_chars by blast
  have d: "(\<forall>c \<in> set (decimal uid). is_digit c) \<and> (\<forall>c \<in> set (decimal (now e)). is_digit c)"
    using decimal_digits by blast
  have e1: "length sane \<le> 50"
    by (simp add: sane_def)
  have e2: "\<forall>c \<in> set sane. allowed_char c"
  proof
    fix c assume "c \<in> set sane"
    then have "c \<in> set (sanitize base)"
      unfolding sane_def sanitize_def by (rule in_set_takeD)
    then show "allowed_char c" by (rule sanitize_allowed)
  qed
  have f: "base @ extname fn = last_component fn"
    unfolding base_def by (rule base_and_extension)
  have g: "\<forall>limits buf mime eid w res w'.
             processAndUpload limits e buf fn mime uid eid w = (Inr res, w') \<longrightarrow>
               (\<exists>m. media_attachments w' (res_id res) = Some m \<and> r2_key m = object_key e fn uid)
               \<and> r2_objects w' (object_key e fn uid) \<noteq> None
               \<and> res_url res = PublicUrl (object_key e fn uid)"
  proof (intro allI impI)
    fix limits buf mime eid w res w'
    assume run: "processAndUpload limits e buf fn mime uid eid w = (Inr res, w')"
    from processAndUpload_success [OF run] obtain user k where
      "upload_for_user limits e user k (megabytes (buf_length buf)) buf fn mime uid eid w = (Inr res, w')"
      by blast
    from upload_for_user_success [OF this] obtain processed dims where
      res: "res = \<lparr>res_id = Suc (last_media_id w), res_url = PublicUrl (object_key e fn uid),
                  res_mediaType = k, res_dimensions = dims, res_fileSize = buf_length processed\<rparr>"
      and w': "w' = updateUserStorageUsage uid (storage_used_mb user + megabytes (buf_length processed))
                  (w\<lparr>r2_objects := (r2_objects w)(object_key e fn uid \<mapsto> processed),
                     media_attachments := (media_attachments w)(Suc (last_media_id w) \<mapsto>
                       \<lparr>entry_id = eid, media_kind = k,
                        filename = basename (object_key e fn uid),
                        original_filename = fn,
                        file_size_mb = megabytes (buf_length processed),
                        r2_key = object_key e fn uid,
                        thumbnail_r2_key = None,
                        media_width = width dims, media_height = height dims,
                        media_duration = duration_or_null (duration dims),
                        status = Complete\<rparr>),
                     last_media_id := Suc (last_media_id w)\<rparr>)"
      by blast
    show "(\<exists>m. media_attachments w' (res_id res) = Some m \<and> r2_key m = object_key e fn uid)
               \<and> r2_objects w' (object_key e fn uid) \<noteq> None
               \<and> res_url res = PublicUrl (object_key e fn uid)"
      by (simp add: res w')
  qed
  from a b c d e1 e2 f g show ?thesis by blast
qed

lemma key_photo:
  "object_key example_env ''dir/my photo!.JPG'' 7 = ''users/7/1234_0123456789abcdef_my_photo_.JPG''"
  by code_simp

theorem object_key_format_witness:
  "object_key example_env ''dir/my photo!.JPG'' 7 = ''users/7/1234_0123456789abcdef_my_photo_.JPG''
   \<and> toString_hex (bytes8 (random_bytes example_env)) = ''0123456789abcdef''
   \<and> length (toString_hex (bytes8 (random_bytes example_env))) = 16
   \<and> basename_suffix ''dir/my photo!.JPG'' (extname ''dir/my photo!.JPG'') = ''my photo!''
   \<and> extname ''dir/my photo!.JPG'' = ''.JPG''
   \<and> (\<exists>m. media_attachments
             (snd (processAndUpload readme_limits example_env video_5mb ''clip.MOV''
                     ''video/quicktime'' 7 3 example_world)) 5 = Some m
          \<and> r2_key m = ''users/7/1234_0123456789abcdef_clip.MOV'')"
proof -
  have hex: "toString_hex (bytes8 (random_bytes example_env)) = ''0123456789abcdef''"
    by code_simp
  have base: "basename_suffix ''dir/my photo!.JPG'' (extname ''dir/my photo!.JPG'') = ''my photo!''"
    and ext: "extname ''dir/my photo!.JPG'' = ''.JPG''"
    by code_simp+
  note t = object_key_format [where e = example_env and fn = "''dir/my photo!.JPG''" and uid = 7]
  have len: "length (toString_hex (bytes8 (random_bytes example_env))) = 16"
    using t by blast
  have up: "\<exists>m. media_attachments
             (snd (processAndUpload readme_limits example_env video_5mb ''clip.MOV''
                     ''video/quicktime'' 7 3 example_world)) 5 = Some m
          \<and> r2_key m = ''users/7/1234_0123456789abcdef_clip.MOV''"
  proof -
    obtain r0 w0 where run: "processAndUpload readme_limits example_env video_5mb ''clip.MOV''
                     ''video/quicktime'' 7 3 example_world = (Inr r0, w0)" and id: "res_id r0 = 5"
      using upload_clip_example by simp
    have "\<exists>m. media_attachments w0 (res_id r0) = Some m
               \<and> r2_key m = object_key example_env ''clip.MOV'' 7"
      using object_key_format [where e = example_env and fn = "''clip.MOV''" and uid = 7] run
      by blast
    then show ?thesis by (simp add: run id key_clip)
  qed
  from key_photo hex len base ext up show ?thesis by blast
qed

section \<open>Video metadata\<close>

text \<open>
  Claim C10. For every successful upload of a video the dimensions returned and the
  width, height and duration recorded in the attachment row are 1920, 1080 and 60,
  whatever the buffer holds: \<open>getVideoDimensions\<close> returns these constants for every
  buffer, the buffer is stored as it came, and nothing in the result or the row tells
  the constants from measured values.
\<close>

theorem video_metadata_is_constant:
  assumes "processAndUpload limits e buf fn mime uid eid w = (Inr res, w')"
    and "res_mediaType res = Video"
  shows "res_dimensions res = \<lparr>width = 1920, height = 1080, duration = Some 60\<rparr>
       \<and> (\<exists>m. media_attachments w' (res_id res) = Some m \<and> media_kind m = Video
              \<and> media_width m = 1920 \<and> media_height m = 1080 \<and> media_duration m = Some 60)
       \<and> r2_objects w' (object_key e fn uid) = Some buf
       \<and> (\<forall>videoBuffer. getVideoDimensions videoBuffer
              = \<lparr>width = 1920, height = 1080, duration = Some 60\<rparr>)"
proof -
  from processAndUpload_success [OF assms(1)] obtain user k where
    "upload_for_user limits e user k (megabytes (buf_length buf)) buf fn mime uid eid w = (Inr res, w')"
    by blast
  from upload_for_user_success [OF this] obtain processed dims where
    tr: "case k of
              Image \<Rightarrow> processImage e buf w = (Inr (processed, dims), w)
            | Video \<Rightarrow> processed = buf \<and> dims = getVideoDimensions buf"
    and res: "res = \<lparr>res_id = Suc (last_media_id w), res_url = PublicUrl (object_key e fn uid),
                  res_mediaType = k, res_dimensions = dims, res_fileSize = buf_length processed\<rparr>"
    and w': "w' = updateUserStorageUsage uid (storage_used_mb user + megabytes (buf_length processed))
                  (w\<lparr>r2_objects := (r2_objects w)(object_key e fn uid \<mapsto> processed),
                     media_attachments := (media_attachments w)(Suc (last_media_id w) \<mapsto>
                       \<lparr>entry_id = eid, media_kind = k,
                        filename = basename (object_key e fn uid),
                        original_filename = fn,
                        file_size_mb = megabytes (buf_length processed),
                        r2_key = object_key e fn uid,
                        thumbnail_r2_key = None,
                        media_width = width dims, media_height = height dims,
                        media_duration = duration_or_null (duration dims),
                        status = Complete\<rparr>),
                     last_media_id := Suc (last_media_id w)\<rparr>)"
    by blast
  from res assms(2) have k: "k = Video" by simp
  with tr have p: "processed = buf" and d: "dims = \<lparr>width = 1920, height = 1080, duration = Some 60\<rparr>"
    by (simp_all add: getVideoDimensions_def)
  show ?thesis
    by (simp add: res w' k p d duration_or_null_def getVideoDimensions_def)
qed

theorem video_metadata_is_constant_witness:
  "processAndUpload readme_limits example_env video_5mb ''clip.MOV'' ''video/quicktime'' 7 3 example_world
     = (Inr \<lparr>res_id = 5, res_url = PublicUrl ''users/7/1234_0123456789abcdef_clip.MOV'',
             res_mediaType = Video,
             res_dimensions = \<lparr>width = 1920, height = 1080, duration = Some 60\<rparr>,
             res_fileSize = 5242880\<rparr>,
        snd (processAndUpload readme_limits example_env video_5mb ''clip.MOV'' ''video/quicktime'' 7 3
               example_world))
   \<and> buf_image video_5mb = None
   \<and> (\<exists>m. media_attachments
             (snd (processAndUpload readme_limits example_env video_5mb ''clip.MOV''
                     ''video/quicktime'' 7 3 example_world)) 5 = Some m
          \<and> media_kind m = Video
          \<and> media_width m = 1920 \<and> media_height m = 1080 \<and> media_duration m = Some 60)"
proof -
  obtain r0 w0 where run: "processAndUpload readme_limits example_env video_5mb ''clip.MOV''
                     ''video/quicktime'' 7 3 example_world = (Inr r0, w0)"
    and r0: "r0 = \<lparr>res_id = 5, res_url = PublicUrl ''users/7/1234_0123456789abcdef_clip.MOV'',
             res_mediaType = Video,
             res_dimensions = \<lparr>width = 1920, height = 1080, duration = Some 60\<rparr>,
             res_fileSize = 5242880\<rparr>"
    using upload_clip_example by simp
  have kind: "res_mediaType r0 = Video" by (simp add: r0)
  from video_metadata_is_constant [OF run kind]
  have "\<exists>m. media_attachments w0 (res_id r0) = Some m \<and> media_kind m = Video
              \<and> media_width m = 1920 \<and> media_height m = 1080 \<and> media_duration m = Some 60"
    by blast
  moreover have "buf_image video_5mb = None" by (simp add: video_5mb_def)
  ultimately show ?thesis by (simp add: run r0)
qed

section \<open>Overlapping uploads of one account\<close>

lemma run_upload_resume:
  assumes "users w userId = Some user" and "validated rq = Some v"
  shows "run_upload limits userId rq w = resume_upload limits userId rq user v w"
  using assms
  by (auto simp: run_upload_def resume_upload_def processAndUpload_def processAndUpload_try_def
        validated_def getUserById_def Let_def split: option.splits if_splits)
















end
